theory Spec2Isabelle
  imports Complex_Main
begin

section \<open>Numbers and errors\<close>

text \<open>
  The module \<^verbatim>\<open>dpf_model.py\<close> computes with Python floats. The values of its formulas
  are modelled as \<^typ>\<open>real\<close>: the arithmetic of the loads and ratios is exact, and the
  inputs are finite numbers. Overflow to infinity, NaN inputs and the exhaustion of memory
  are outside the model.

  Three features of the run-time values are kept, because the control flow or the shape of
  a result depends on them:
  \<^item> a division of a Python float by a Python float that is zero raises
    \<^verbatim>\<open>ZeroDivisionError\<close>;
  \<^item> a division whose dividend is a NumPy scalar (\<^verbatim>\<open>numpy.float64\<close>) does not raise
    when the divisor is zero: it returns an infinity or NaN (with a warning). Such a
    result is the value \<open>NonFinite\<close> below. An arithmetic result is a NumPy scalar as
    soon as one operand is;
  \<^item> the number of checkpoints of the sweep is the ceiling of a quotient of doubles, so
    the operations that lead to it are rounded to doubles (\<open>round_double\<close> below).
\<close>

datatype py_error = ZeroDivisionError | ValueError

datatype scalar = PyFloat real | NpFloat64 real

fun scalar_val :: "scalar \<Rightarrow> real" where
  "scalar_val (PyFloat x) = x"
| "scalar_val (NpFloat64 x) = x"

fun is_numpy :: "scalar \<Rightarrow> bool" where
  "is_numpy (PyFloat x) = False"
| "is_numpy (NpFloat64 x) = True"

datatype float64 = Finite real | NonFinite

text \<open>\<^verbatim>\<open>a / b\<close> where \<open>a\<close> is a NumPy scalar: no exception on a zero divisor.\<close>

definition np_truediv :: "real \<Rightarrow> real \<Rightarrow> float64" where
  "np_truediv a b = (if b = 0 then NonFinite else Finite (a / b))"

text \<open>\<^verbatim>\<open>a + b\<close> on possibly non-finite values: infinities and NaN never become finite
  again under addition.\<close>

fun float64_add :: "float64 \<Rightarrow> float64 \<Rightarrow> float64" where
  "float64_add (Finite a) (Finite b) = Finite (a + b)"
| "float64_add _ _ = NonFinite"

text \<open>
  Rounding of a real to the nearest double (IEEE 754 binary64: 53 significant bits, the
  least exponent -1022 with gradual underflow below, ties to the even significand).
\<close>

definition round_half_even :: "real \<Rightarrow> int" where
  "round_half_even y =
     (let f = \<lfloor>y\<rfloor>; d = y - of_int f
      in if d < 1 / 2 then f
         else if 1 / 2 < d then f + 1
         else if even f then f else f + 1)"

definition double_ulp :: "real \<Rightarrow> real" where
  "double_ulp x = 2 powr of_int (max (- 1022) \<lfloor>log 2 \<bar>x\<bar>\<rfloor> - 52)"

definition round_double :: "real \<Rightarrow> real" where
  "round_double x =
     (if x = 0 then 0
      else of_int (round_half_even (x / double_ulp x)) * double_ulp x)"

text \<open>\<^verbatim>\<open>numpy.clip(a, a_min, a_max)\<close> is \<open>minimum(a_max, maximum(a, a_min))\<close>.\<close>

definition np_clip :: "real \<Rightarrow> real \<Rightarrow> real \<Rightarrow> real" where
  "np_clip a a_min a_max = min a_max (max a a_min)"

section \<open>The rate model\<close>

text \<open>
  The dataclasses of lines 8--35. The field \<open>mileage_km\<close> is a \<^typ>\<open>scalar\<close>: the
  lifecycle sweep builds its \<^verbatim>\<open>DPFInputs\<close> with an element of a NumPy array there
  (line 95), all other fields hold the caller's Python floats.
\<close>

record DPFInputs =
  mileage_km :: scalar
  avg_speed_kmh :: real
  city_ratio :: real
  oil_ash_content_pct :: real
  fuel_sulfur_ppm :: real
  regen_interval_km :: real

record DPFParams =
  dpf_capacity_units :: real
  base_soot_rate_per_1000km :: real
  ash_factor_per_pct_per_1000km :: real
  sulfur_factor_per_1000ppm :: real
  low_speed_threshold_kmh :: real
  low_speed_sensitivity :: real
  city_sensitivity :: real

text \<open>The defaults of \<^verbatim>\<open>DPFParams()\<close>, lines 20--26.\<close>

definition default_DPFParams :: DPFParams where
  "default_DPFParams =
     \<lparr>dpf_capacity_units = 100,
      base_soot_rate_per_1000km = 1,
      ash_factor_per_pct_per_1000km = 1 / 10,
      sulfur_factor_per_1000ppm = 1,
      low_speed_threshold_kmh = 60,
      low_speed_sensitivity = 1,
      city_sensitivity = 3 / 2\<rparr>"

record DPFState =
  soot_load :: real
  ash_load :: real
  total_ratio :: float64
  soot_ratio :: float64
  ash_ratio :: float64

text \<open>
  \<^verbatim>\<open>predict_dpf_state\<close>, lines 38--77, statement by statement.
  \<^item> Line 54 divides two Python floats: a zero threshold raises.
  \<^item> \<open>soot_factor_city\<close> is a NumPy scalar (the result of \<^verbatim>\<open>np.clip\<close>), and so are
    \<open>soot_rate\<close> and \<open>soot_load\<close>: line 67 never raises.
  \<^item> \<open>ash_load\<close> is a NumPy scalar exactly when \<open>mileage_km\<close> is: line 68 raises on a
    zero capacity when \<open>mileage_km\<close> is a Python float.
\<close>

definition predict_dpf_state :: "DPFInputs \<Rightarrow> DPFParams \<Rightarrow> py_error + DPFState" where
  "predict_dpf_state inputs params =
     (let km_thousands = scalar_val (mileage_km inputs) / 1000;
          soot_factor_city = 1 + city_sensitivity params * np_clip (city_ratio inputs) 0 1;
          low_speed_delta = max 0 (low_speed_threshold_kmh params - avg_speed_kmh inputs)
      in if low_speed_threshold_kmh params = 0 then Inl ZeroDivisionError
         else
           let speed_factor = 1 + low_speed_sensitivity params
                                    * (low_speed_delta / low_speed_threshold_kmh params);
               sulfur_factor = 1 + sulfur_factor_per_1000ppm params
                                     * (fuel_sulfur_ppm inputs / 1000);
               soot_rate = base_soot_rate_per_1000km params * soot_factor_city
                             * speed_factor * sulfur_factor;
               soot_load = soot_rate * km_thousands;
               ash_rate = ash_factor_per_pct_per_1000km params * oil_ash_content_pct inputs;
               ash_load = ash_rate * km_thousands;
               soot_ratio = np_truediv soot_load (dpf_capacity_units params)
           in if dpf_capacity_units params = 0 \<and> \<not> is_numpy (mileage_km inputs)
              then Inl ZeroDivisionError
              else
                let ash_ratio = np_truediv ash_load (dpf_capacity_units params);
                    total_ratio = float64_add soot_ratio ash_ratio
                in Inr \<lparr>soot_load = soot_load,
                         ash_load = ash_load,
                         total_ratio = total_ratio,
                         soot_ratio = soot_ratio,
                         ash_ratio = ash_ratio\<rparr>)"

text \<open>
  The intermediate quantities of \<^verbatim>\<open>predict_dpf_state\<close> by name (the local variables of
  lines 45--64), for the statements about them. \<open>speed_factor\<close> is the value of line 54
  when the threshold is not zero.
\<close>

definition km_thousands :: "DPFInputs \<Rightarrow> real" where
  "km_thousands inputs = scalar_val (mileage_km inputs) / 1000"

definition soot_factor_city :: "DPFInputs \<Rightarrow> DPFParams \<Rightarrow> real" where
  "soot_factor_city inputs params =
     1 + city_sensitivity params * np_clip (city_ratio inputs) 0 1"

definition low_speed_delta :: "DPFInputs \<Rightarrow> DPFParams \<Rightarrow> real" where
  "low_speed_delta inputs params =
     max 0 (low_speed_threshold_kmh params - avg_speed_kmh inputs)"

definition speed_factor :: "DPFInputs \<Rightarrow> DPFParams \<Rightarrow> real" where
  "speed_factor inputs params =
     1 + low_speed_sensitivity params
           * (low_speed_delta inputs params / low_speed_threshold_kmh params)"

definition sulfur_factor :: "DPFInputs \<Rightarrow> DPFParams \<Rightarrow> real" where
  "sulfur_factor inputs params =
     1 + sulfur_factor_per_1000ppm params * (fuel_sulfur_ppm inputs / 1000)"

definition soot_rate :: "DPFInputs \<Rightarrow> DPFParams \<Rightarrow> real" where
  "soot_rate inputs params =
     base_soot_rate_per_1000km params * soot_factor_city inputs params
       * speed_factor inputs params * sulfur_factor inputs params"

definition ash_rate :: "DPFInputs \<Rightarrow> DPFParams \<Rightarrow> real" where
  "ash_rate inputs params = ash_factor_per_pct_per_1000km params * oil_ash_content_pct inputs"

section \<open>The lifecycle sweep\<close>

text \<open>
  \<^verbatim>\<open>numpy.arange(start, stop, step)\<close> is a library function; this is what it does for
  finite doubles.
  \<^item> The quotient \<open>(stop - start) / step\<close> is a Python division of two floats: a zero
    step raises \<^verbatim>\<open>ZeroDivisionError\<close>. The length is the ceiling of the rounded
    quotient; the array is empty when that is not positive.
  \<^item> NumPy refuses a length beyond the greatest size of an array
    (\<^verbatim>\<open>ValueError: Maximum allowed size exceeded\<close>). That bound depends on the
    platform and is the parameter \<open>max_length\<close>. (An array within the bound that does
    not fit into the memory is outside the model.)
  \<^item> The first two elements are \<open>start\<close> and \<open>start + step\<close>; element \<open>i\<close> is
    \<open>start + i * delta\<close>, where \<open>delta\<close> is the difference of the first two.
\<close>

definition np_arange_length :: "real \<Rightarrow> real \<Rightarrow> real \<Rightarrow> int" where
  "np_arange_length start stop step = \<lceil>round_double (round_double (stop - start) / step)\<rceil>"

definition np_arange_item :: "real \<Rightarrow> real \<Rightarrow> nat \<Rightarrow> real" where
  "np_arange_item start step i =
     (if i = 0 then start
      else if i = 1 then round_double (start + step)
      else let delta = round_double (round_double (start + step) - start)
           in round_double (start + round_double (real i * delta)))"

definition np_arange :: "nat \<Rightarrow> real \<Rightarrow> real \<Rightarrow> real \<Rightarrow> py_error + real list" where
  "np_arange max_length start stop step =
     (if step = 0 then Inl ZeroDivisionError
      else if int max_length < np_arange_length start stop step then Inl ValueError
      else Inr (map (np_arange_item start step)
                  [0..<nat (np_arange_length start stop step)]))"

text \<open>
  A row of the returned table (lines 104--111) merges the fields of the input record built
  for the checkpoint with the five fields of its state; the two groups of keys are
  disjoint, so a row is the pair of both records.
\<close>

type_synonym lifecycle_row = "DPFInputs \<times> DPFState"

text \<open>
  The loop of lines 93--112 over the array \<open>mileages\<close>, with \<open>records\<close> as accumulator.
  Each \<open>m\<close> is an element of a NumPy array. An exception of \<^verbatim>\<open>predict_dpf_state\<close>
  leaves the loop.
\<close>

fun lifecycle_records ::
  "DPFInputs \<Rightarrow> DPFParams \<Rightarrow> real list \<Rightarrow> lifecycle_row list \<Rightarrow> py_error + lifecycle_row list"
where
  "lifecycle_records base_inputs params [] records = Inr records"
| "lifecycle_records base_inputs params (m # mileages) records =
     (let inp = \<lparr>mileage_km = NpFloat64 m,
                 avg_speed_kmh = avg_speed_kmh base_inputs,
                 city_ratio = city_ratio base_inputs,
                 oil_ash_content_pct = oil_ash_content_pct base_inputs,
                 fuel_sulfur_ppm = fuel_sulfur_ppm base_inputs,
                 regen_interval_km = regen_interval_km base_inputs\<rparr>
      in case predict_dpf_state inp params of
           Inl e \<Rightarrow> Inl e
         | Inr state \<Rightarrow>
             lifecycle_records base_inputs params mileages (records @ [(inp, state)]))"

text \<open>
  \<^verbatim>\<open>simulate_vehicle_lifecycle\<close>, lines 80--114; the table is the list of its rows. The
  first argument is the platform's greatest array length, which \<^verbatim>\<open>np.arange\<close> needs;
  the stop value \<open>max_mileage_km + step_km\<close> is a sum of two floats.
\<close>

definition simulate_vehicle_lifecycle ::
  "nat \<Rightarrow> DPFInputs \<Rightarrow> real \<Rightarrow> real \<Rightarrow> DPFParams \<Rightarrow> py_error + lifecycle_row list"
where
  "simulate_vehicle_lifecycle max_length base_inputs max_mileage_km step_km params =
     (case np_arange max_length 0 (round_double (max_mileage_km + step_km)) step_km of
        Inl e \<Rightarrow> Inl e
      | Inr mileages \<Rightarrow> lifecycle_records base_inputs params mileages [])"

text \<open>
  The row that one pass of the loop appends for the checkpoint \<open>m\<close>, when
  \<^verbatim>\<open>predict_dpf_state\<close> returns there (lines 94--112).
\<close>

definition checkpoint_row :: "DPFInputs \<Rightarrow> DPFParams \<Rightarrow> real \<Rightarrow> lifecycle_row" where
  "checkpoint_row base_inputs params m =
     (base_inputs\<lparr>mileage_km := NpFloat64 m\<rparr>,
      projr (predict_dpf_state (base_inputs\<lparr>mileage_km := NpFloat64 m\<rparr>) params))"

text \<open>The column \<open>mileage_km\<close> of a table, as numbers.\<close>

definition mileage_column :: "lifecycle_row list \<Rightarrow> real list" where
  "mileage_column rows = map (\<lambda>row. scalar_val (mileage_km (fst row))) rows"

section \<open>The mass-balance model\<close>

text \<open>The dataclasses of lines 119--137.\<close>

record OilSpec =
  name :: string
  sulfated_ash_pct :: real
  density_kg_per_l :: real

record FuelSpec =
  name :: string
  sulfur_ppm :: real
  density_kg_per_l :: real

record UsageProfile =
  mileage_km :: real
  oil_consumption_l_per_1000km :: real
  fuel_consumption_l_per_100km :: real

text \<open>\<^verbatim>\<open>calc_oil_ash_mass_g\<close>, lines 140--150. Both divisors are constants.\<close>

definition calc_oil_ash_mass_g :: "UsageProfile \<Rightarrow> OilSpec \<Rightarrow> real" where
  "calc_oil_ash_mass_g profile oil =
     (let oil_liters = (UsageProfile.mileage_km profile / 1000)
                         * oil_consumption_l_per_1000km profile;
          oil_mass_kg = oil_liters * OilSpec.density_kg_per_l oil;
          ash_mass_kg = oil_mass_kg * (sulfated_ash_pct oil / 100)
      in ash_mass_kg * 1000)"

text \<open>The first two local variables of \<^verbatim>\<open>calc_oil_ash_mass_g\<close> by name (lines 145 and 147).\<close>

definition oil_liters :: "UsageProfile \<Rightarrow> real" where
  "oil_liters profile =
     (UsageProfile.mileage_km profile / 1000) * oil_consumption_l_per_1000km profile"

definition oil_mass_kg :: "UsageProfile \<Rightarrow> OilSpec \<Rightarrow> real" where
  "oil_mass_kg profile oil = oil_liters profile * OilSpec.density_kg_per_l oil"

text \<open>\<^verbatim>\<open>calc_fuel_ash_mass_g\<close>, lines 153--170; \<^verbatim>\<open>1e-6\<close> is one millionth.\<close>

definition calc_fuel_ash_mass_g :: "UsageProfile \<Rightarrow> FuelSpec \<Rightarrow> real \<Rightarrow> real" where
  "calc_fuel_ash_mass_g profile fuel sulfur_to_ash_factor =
     (let fuel_liters = (UsageProfile.mileage_km profile / 100)
                          * fuel_consumption_l_per_100km profile;
          fuel_mass_kg = fuel_liters * FuelSpec.density_kg_per_l fuel;
          sulfur_mass_kg = fuel_mass_kg * (sulfur_ppm fuel * (1 / 1000000));
          ash_mass_kg = sulfur_mass_kg * sulfur_to_ash_factor
      in ash_mass_kg * 1000)"

text \<open>
  \<^verbatim>\<open>calc_dpf_ash_fill\<close>, lines 173--201. The result is a dictionary from field names to
  numbers. Line 191 divides two Python floats: a zero capacity raises.
\<close>

definition calc_dpf_ash_fill ::
  "UsageProfile \<Rightarrow> OilSpec \<Rightarrow> FuelSpec \<Rightarrow> real \<Rightarrow> real \<Rightarrow> py_error + (string \<rightharpoonup> real)"
where
  "calc_dpf_ash_fill profile oil fuel dpf_capacity_ash_g sulfur_to_ash_factor =
     (let oil_ash_g = calc_oil_ash_mass_g profile oil;
          fuel_ash_g = calc_fuel_ash_mass_g profile fuel sulfur_to_ash_factor;
          total_ash_g = oil_ash_g + fuel_ash_g
      in if dpf_capacity_ash_g = 0 then Inl ZeroDivisionError
         else
           let fill_ratio = total_ash_g / dpf_capacity_ash_g;
               fill_percent = fill_ratio * 100
           in Inr [''oil_ash_g'' \<mapsto> oil_ash_g,
                   ''fuel_ash_g'' \<mapsto> fuel_ash_g,
                   ''total_ash_g'' \<mapsto> total_ash_g,
                   ''dpf_capacity_ash_g'' \<mapsto> dpf_capacity_ash_g,
                   ''fill_ratio'' \<mapsto> fill_ratio,
                   ''fill_percent'' \<mapsto> fill_percent])"

text \<open>The default arguments of line 177 and line 178.\<close>

definition default_dpf_capacity_ash_g :: real where
  "default_dpf_capacity_ash_g = 120"

definition default_sulfur_to_ash_factor :: real where
  "default_sulfur_to_ash_factor = 3"

section \<open>Properties of the rate model\<close>

subsection \<open>When a state is returned\<close>

text \<open>
  With a threshold that is not zero, and a capacity that is not zero or a mileage that is a
  NumPy scalar, \<open>predict_dpf_state\<close> returns a state whose fields are the products and
  quotients of the source.
\<close>

lemma predict_dpf_state_fields:
  assumes "low_speed_threshold_kmh params \<noteq> 0"
    and "is_numpy (DPFInputs.mileage_km inputs) \<or> dpf_capacity_units params \<noteq> 0"
  obtains state where "predict_dpf_state inputs params = Inr state"
    and "soot_load state = soot_rate inputs params * km_thousands inputs"
    and "ash_load state = ash_rate inputs params * km_thousands inputs"
    and "soot_ratio state = np_truediv (soot_load state) (dpf_capacity_units params)"
    and "ash_ratio state = np_truediv (ash_load state) (dpf_capacity_units params)"
    and "total_ratio state = float64_add (soot_ratio state) (ash_ratio state)"
  using assms
  by (auto simp add: predict_dpf_state_def Let_def soot_rate_def km_thousands_def ash_rate_def
      soot_factor_city_def speed_factor_def low_speed_delta_def sulfur_factor_def)

lemma predict_dpf_state_raises_iff:
  "(predict_dpf_state inputs params = Inl ZeroDivisionError) =
     (low_speed_threshold_kmh params = 0
      \<or> (dpf_capacity_units params = 0 \<and> \<not> is_numpy (DPFInputs.mileage_km inputs)))"
  by (auto simp add: predict_dpf_state_def Let_def)

lemma predict_dpf_state_scalar_kind:
  assumes "dpf_capacity_units params \<noteq> 0"
  shows "predict_dpf_state (inputs\<lparr>DPFInputs.mileage_km := PyFloat x\<rparr>) params
       = predict_dpf_state (inputs\<lparr>DPFInputs.mileage_km := NpFloat64 x\<rparr>) params"
  using assms by (simp add: predict_dpf_state_def Let_def)

subsection \<open>Zero mileage\<close>

text \<open>
  Claim C2. At \<open>mileage_km = 0\<close>, with a capacity and a low-speed threshold that are not
  zero, \<open>predict_dpf_state\<close> returns a state whose two loads and three ratios are all
  zero, whatever the other input fields and parameters are.
\<close>

theorem predict_dpf_state_zero_mileage:
  assumes "scalar_val (DPFInputs.mileage_km inputs) = 0"
    and "dpf_capacity_units params \<noteq> 0"
    and "low_speed_threshold_kmh params \<noteq> 0"
  shows "predict_dpf_state inputs params =
     Inr \<lparr>soot_load = 0, ash_load = 0, total_ratio = Finite 0,
          soot_ratio = Finite 0, ash_ratio = Finite 0\<rparr>"
  using assms by (simp add: predict_dpf_state_def Let_def np_truediv_def)

text \<open>The theorem at a city profile and the default parameters.\<close>

theorem predict_dpf_state_zero_mileage_witness:
  "scalar_val (DPFInputs.mileage_km
      \<lparr>DPFInputs.mileage_km = PyFloat 0, avg_speed_kmh = 35, city_ratio = 7 / 10,
       oil_ash_content_pct = 4 / 5, fuel_sulfur_ppm = 10, regen_interval_km = 400\<rparr>) = 0
   \<and> dpf_capacity_units default_DPFParams \<noteq> 0
   \<and> low_speed_threshold_kmh default_DPFParams \<noteq> 0
   \<and> predict_dpf_state
        \<lparr>DPFInputs.mileage_km = PyFloat 0, avg_speed_kmh = 35, city_ratio = 7 / 10,
         oil_ash_content_pct = 4 / 5, fuel_sulfur_ppm = 10, regen_interval_km = 400\<rparr>
        default_DPFParams
      = Inr \<lparr>soot_load = 0, ash_load = 0, total_ratio = Finite 0,
             soot_ratio = Finite 0, ash_ratio = Finite 0\<rparr>"
  using predict_dpf_state_zero_mileage
    [of "\<lparr>DPFInputs.mileage_km = PyFloat 0, avg_speed_kmh = 35, city_ratio = 7 / 10,
          oil_ash_content_pct = 4 / 5, fuel_sulfur_ppm = 10, regen_interval_km = 400\<rparr>"
      default_DPFParams]
  by (simp add: default_DPFParams_def)

subsection \<open>Negative speeds\<close>

text \<open>
  Claim C3 as stated fails. At \<open>avg_speed_kmh = -60\<close> under the default parameters
  (threshold 60, sensitivity 1) the delta of line 53 is 120, not the threshold 60, and the
  speed factor is 3, not \<open>1 + low_speed_sensitivity = 2\<close>; the soot load after 1000 km is
  3 accordingly.
\<close>

theorem negative_speed_delta_counterexample:
  "low_speed_delta
     \<lparr>DPFInputs.mileage_km = PyFloat 1000, avg_speed_kmh = - 60, city_ratio = 0,
      oil_ash_content_pct = 0, fuel_sulfur_ppm = 0, regen_interval_km = 400\<rparr>
     default_DPFParams = 120
   \<and> low_speed_threshold_kmh default_DPFParams = 60
   \<and> speed_factor
     \<lparr>DPFInputs.mileage_km = PyFloat 1000, avg_speed_kmh = - 60, city_ratio = 0,
      oil_ash_content_pct = 0, fuel_sulfur_ppm = 0, regen_interval_km = 400\<rparr>
     default_DPFParams = 3
   \<and> 1 + low_speed_sensitivity default_DPFParams = 2
   \<and> predict_dpf_state
     \<lparr>DPFInputs.mileage_km = PyFloat 1000, avg_speed_kmh = - 60, city_ratio = 0,
      oil_ash_content_pct = 0, fuel_sulfur_ppm = 0, regen_interval_km = 400\<rparr>
     default_DPFParams
     = Inr \<lparr>soot_load = 3, ash_load = 0, total_ratio = Finite (3 / 100),
            soot_ratio = Finite (3 / 100), ash_ratio = Finite 0\<rparr>"
  by (simp add: low_speed_delta_def speed_factor_def default_DPFParams_def
      predict_dpf_state_def Let_def np_clip_def np_truediv_def)

text \<open>
  Claim C3, amended. The penalty term is \<open>max 0 (threshold - avg_speed)\<close>. For a negative
  speed and a positive threshold it is \<open>threshold - avg_speed\<close>, which is strictly more
  than the threshold: the penalty is not capped at the threshold, and the speed factor is
  \<open>1 + low_speed_sensitivity * ((threshold - avg_speed) / threshold)\<close>. The input is not
  rejected: with a capacity that is not zero a state is returned, and its soot load is
  computed with that speed factor.
\<close>

theorem negative_speed_exceeds_threshold:
  assumes "avg_speed_kmh inputs < 0"
    and "0 < low_speed_threshold_kmh params"
    and "dpf_capacity_units params \<noteq> 0"
  shows "low_speed_delta inputs params
           = max 0 (low_speed_threshold_kmh params - avg_speed_kmh inputs)
     \<and> low_speed_delta inputs params = low_speed_threshold_kmh params - avg_speed_kmh inputs
     \<and> low_speed_threshold_kmh params < low_speed_delta inputs params
     \<and> speed_factor inputs params
           = 1 + low_speed_sensitivity params
                   * ((low_speed_threshold_kmh params - avg_speed_kmh inputs)
                        / low_speed_threshold_kmh params)
     \<and> (\<exists>state. predict_dpf_state inputs params = Inr state
           \<and> soot_load state
               = base_soot_rate_per_1000km params * soot_factor_city inputs params
                   * (1 + low_speed_sensitivity params
                            * ((low_speed_threshold_kmh params - avg_speed_kmh inputs)
                                 / low_speed_threshold_kmh params))
                   * sulfur_factor inputs params * km_thousands inputs)"
proof -
  have delta: "low_speed_delta inputs params
                 = low_speed_threshold_kmh params - avg_speed_kmh inputs"
    using assms by (simp add: low_speed_delta_def)
  have factor: "speed_factor inputs params
           = 1 + low_speed_sensitivity params
                   * ((low_speed_threshold_kmh params - avg_speed_kmh inputs)
                        / low_speed_threshold_kmh params)"
    by (simp add: speed_factor_def delta)
  have "low_speed_threshold_kmh params \<noteq> 0"
    using assms(2) by simp
  moreover have "is_numpy (DPFInputs.mileage_km inputs) \<or> dpf_capacity_units params \<noteq> 0"
    using assms(3) by simp
  ultimately obtain state where "predict_dpf_state inputs params = Inr state"
    and "soot_load state = soot_rate inputs params * km_thousands inputs"
    by (rule predict_dpf_state_fields)
  then have "\<exists>state. predict_dpf_state inputs params = Inr state
           \<and> soot_load state = soot_rate inputs params * km_thousands inputs"
    by blast
  moreover have "low_speed_delta inputs params
           = max 0 (low_speed_threshold_kmh params - avg_speed_kmh inputs)"
    by (simp add: low_speed_delta_def)
  moreover have "low_speed_threshold_kmh params < low_speed_delta inputs params"
    using assms delta by simp
  ultimately show ?thesis
    using delta factor by (simp add: soot_rate_def)
qed

text \<open>The theorem at \<open>avg_speed_kmh = -20\<close> and the default parameters: the delta is 80.\<close>

theorem negative_speed_exceeds_threshold_witness:
  "avg_speed_kmh
      \<lparr>DPFInputs.mileage_km = PyFloat 3000, avg_speed_kmh = - 20, city_ratio = 1,
       oil_ash_content_pct = 1, fuel_sulfur_ppm = 0, regen_interval_km = 400\<rparr> < 0
   \<and> 0 < low_speed_threshold_kmh default_DPFParams
   \<and> dpf_capacity_units default_DPFParams \<noteq> 0
   \<and> low_speed_delta
        \<lparr>DPFInputs.mileage_km = PyFloat 3000, avg_speed_kmh = - 20, city_ratio = 1,
         oil_ash_content_pct = 1, fuel_sulfur_ppm = 0, regen_interval_km = 400\<rparr>
        default_DPFParams = 80
   \<and> (\<exists>state. predict_dpf_state
          \<lparr>DPFInputs.mileage_km = PyFloat 3000, avg_speed_kmh = - 20, city_ratio = 1,
           oil_ash_content_pct = 1, fuel_sulfur_ppm = 0, regen_interval_km = 400\<rparr>
          default_DPFParams = Inr state
        \<and> soot_load state = 35 / 2)"
  using negative_speed_exceeds_threshold
    [of "\<lparr>DPFInputs.mileage_km = PyFloat 3000, avg_speed_kmh = - 20, city_ratio = 1,
          oil_ash_content_pct = 1, fuel_sulfur_ppm = 0, regen_interval_km = 400\<rparr>"
      default_DPFParams]
  by (simp add: default_DPFParams_def soot_factor_city_def sulfur_factor_def km_thousands_def
      np_clip_def)

subsection \<open>Clamping of the city ratio\<close>

lemma np_clip_unit: "np_clip x 0 1 = min 1 (max 0 x)"
  by (simp add: np_clip_def max.commute)

lemma np_clip_unit_idem: "np_clip (min 1 (max 0 x)) 0 1 = np_clip x 0 1"
  by (simp add: np_clip_def min_def max_def)

lemma np_clip_above_one: "np_clip 2 0 1 = np_clip 1 0 1"
  by (simp add: np_clip_def)

text \<open>
  Claim C4. \<open>predict_dpf_state\<close> uses \<open>city_ratio\<close> clamped to the interval from 0 to 1:
  the soot load of every returned state is the product of the source with the city factor
  \<open>1 + city_sensitivity * min 1 (max 0 city_ratio)\<close>; replacing the field by
  \<open>min 1 (max 0 city_ratio)\<close> changes nothing in the result, and \<open>city_ratio = 2\<close> gives
  the result of \<open>city_ratio = 1\<close>. No input is validated: for inputs that are Python
  floats, a state is returned exactly when the two divisors are not zero, whatever the
  values of the input fields are.
\<close>

theorem predict_dpf_state_clamps_city_ratio:
  "predict_dpf_state (inputs\<lparr>city_ratio := min 1 (max 0 (city_ratio inputs))\<rparr>) params
     = predict_dpf_state inputs params
   \<and> predict_dpf_state (inputs\<lparr>city_ratio := 2\<rparr>) params
     = predict_dpf_state (inputs\<lparr>city_ratio := 1\<rparr>) params
   \<and> ((\<exists>state. predict_dpf_state (inputs\<lparr>DPFInputs.mileage_km := PyFloat x\<rparr>) params
                  = Inr state) =
        (low_speed_threshold_kmh params \<noteq> 0 \<and> dpf_capacity_units params \<noteq> 0))
   \<and> (predict_dpf_state inputs params = Inr state \<longrightarrow>
        soot_load state
          = base_soot_rate_per_1000km params
              * (1 + city_sensitivity params * min 1 (max 0 (city_ratio inputs)))
              * (1 + low_speed_sensitivity params
                       * (max 0 (low_speed_threshold_kmh params - avg_speed_kmh inputs)
                            / low_speed_threshold_kmh params))
              * (1 + sulfur_factor_per_1000ppm params * (fuel_sulfur_ppm inputs / 1000))
              * (scalar_val (DPFInputs.mileage_km inputs) / 1000))"
proof (intro conjI impI)
  show "predict_dpf_state (inputs\<lparr>city_ratio := min 1 (max 0 (city_ratio inputs))\<rparr>) params
     = predict_dpf_state inputs params"
    by (simp add: predict_dpf_state_def Let_def np_clip_unit_idem)
  show "predict_dpf_state (inputs\<lparr>city_ratio := 2\<rparr>) params
     = predict_dpf_state (inputs\<lparr>city_ratio := 1\<rparr>) params"
    by (simp add: predict_dpf_state_def Let_def np_clip_above_one)
  show "(\<exists>state. predict_dpf_state (inputs\<lparr>DPFInputs.mileage_km := PyFloat x\<rparr>) params
                  = Inr state) =
        (low_speed_threshold_kmh params \<noteq> 0 \<and> dpf_capacity_units params \<noteq> 0)"
    by (simp add: predict_dpf_state_def Let_def)
next
  assume ret: "predict_dpf_state inputs params = Inr state"
  then have "predict_dpf_state inputs params \<noteq> Inl ZeroDivisionError"
    by simp
  then have thr: "low_speed_threshold_kmh params \<noteq> 0"
    and ok: "is_numpy (DPFInputs.mileage_km inputs) \<or> dpf_capacity_units params \<noteq> 0"
    by (auto simp add: predict_dpf_state_raises_iff)
  from thr ok obtain state' where "predict_dpf_state inputs params = Inr state'"
    and "soot_load state' = soot_rate inputs params * km_thousands inputs"
    by (rule predict_dpf_state_fields)
  with ret have "soot_load state = soot_rate inputs params * km_thousands inputs"
    by simp
  then show "soot_load state
          = base_soot_rate_per_1000km params
              * (1 + city_sensitivity params * min 1 (max 0 (city_ratio inputs)))
              * (1 + low_speed_sensitivity params
                       * (max 0 (low_speed_threshold_kmh params - avg_speed_kmh inputs)
                            / low_speed_threshold_kmh params))
              * (1 + sulfur_factor_per_1000ppm params * (fuel_sulfur_ppm inputs / 1000))
              * (scalar_val (DPFInputs.mileage_km inputs) / 1000)"
    by (simp add: soot_rate_def soot_factor_city_def speed_factor_def low_speed_delta_def
        sulfur_factor_def km_thousands_def np_clip_unit)
qed

text \<open>
  The theorem under the default parameters, after 1000 km at 60 km/h without sulfur: the
  soot load is \<open>5/2\<close> for \<open>city_ratio = 2\<close> (as for 1), \<open>7/4\<close> for \<open>city_ratio = 1/2\<close>
  and 1 for \<open>city_ratio = -1\<close> (as for 0).
\<close>

theorem predict_dpf_state_clamps_city_ratio_witness:
  "(\<exists>state. predict_dpf_state
        \<lparr>DPFInputs.mileage_km = PyFloat 1000, avg_speed_kmh = 60, city_ratio = 2,
         oil_ash_content_pct = 1, fuel_sulfur_ppm = 0, regen_interval_km = 400\<rparr>
        default_DPFParams = Inr state
      \<and> soot_load state = 5 / 2)
   \<and> (\<exists>state. predict_dpf_state
        \<lparr>DPFInputs.mileage_km = PyFloat 1000, avg_speed_kmh = 60, city_ratio = 1 / 2,
         oil_ash_content_pct = 1, fuel_sulfur_ppm = 0, regen_interval_km = 400\<rparr>
        default_DPFParams = Inr state
      \<and> soot_load state = 7 / 4)
   \<and> (\<exists>state. predict_dpf_state
        \<lparr>DPFInputs.mileage_km = PyFloat 1000, avg_speed_kmh = 60, city_ratio = - 1,
         oil_ash_content_pct = 1, fuel_sulfur_ppm = 0, regen_interval_km = 400\<rparr>
        default_DPFParams = Inr state
      \<and> soot_load state = 1)"
proof -
  have run: "\<exists>state. predict_dpf_state
        \<lparr>DPFInputs.mileage_km = PyFloat 1000, avg_speed_kmh = 60, city_ratio = c,
         oil_ash_content_pct = 1, fuel_sulfur_ppm = 0, regen_interval_km = 400\<rparr>
        default_DPFParams = Inr state
      \<and> soot_load state = 1 + 3 / 2 * min 1 (max 0 c)" for c
  proof -
    let ?inputs = "\<lparr>DPFInputs.mileage_km = PyFloat 1000, avg_speed_kmh = 60, city_ratio = c,
         oil_ash_content_pct = 1, fuel_sulfur_ppm = 0, regen_interval_km = 400\<rparr>"
    note inst = predict_dpf_state_clamps_city_ratio
      [where x = 1000 and params = default_DPFParams and inputs = "?inputs"]
    have "\<exists>state. predict_dpf_state (?inputs\<lparr>DPFInputs.mileage_km := PyFloat 1000\<rparr>)
            default_DPFParams = Inr state"
      using inst by (simp add: default_DPFParams_def)
    then obtain state where st: "predict_dpf_state ?inputs default_DPFParams = Inr state"
      by auto
    have "soot_load state = 1 + 3 / 2 * min 1 (max 0 c)"
      using st inst [where state = state] by (simp add: default_DPFParams_def)
    with st show ?thesis
      by blast
  qed
  have a: "1 + 3 / 2 * min 1 (max 0 (2::real)) = 5 / 2"
    and b: "1 + 3 / 2 * min 1 (max 0 (1 / 2 :: real)) = 7 / 4"
    and c: "1 + 3 / 2 * min 1 (max 0 (- 1 :: real)) = 1"
    by simp_all
  show ?thesis
    using run [of 2] run [of "1 / 2"] run [of "- 1"] unfolding a b c
    by (intro conjI)
qed


subsection \<open>Monotonicity in the mileage\<close>

lemma soot_rate_mileage_update:
  "soot_rate (inputs\<lparr>DPFInputs.mileage_km := m\<rparr>) params = soot_rate inputs params"
  by (simp add: soot_rate_def soot_factor_city_def speed_factor_def low_speed_delta_def
      sulfur_factor_def)

lemma ash_rate_mileage_update:
  "ash_rate (inputs\<lparr>DPFInputs.mileage_km := m\<rparr>) params = ash_rate inputs params"
  by (simp add: ash_rate_def)

lemma km_thousands_mileage_update:
  "km_thousands (inputs\<lparr>DPFInputs.mileage_km := m\<rparr>) = scalar_val m / 1000"
  by (simp add: km_thousands_def)

text \<open>
  Claim C5 as stated fails, at two pairs of inputs that differ only in the mileage (0 and
  1000 km). Under the default parameters and with \<open>oil_ash_content_pct = -1\<close> the ash
  loads are 0 and \<open>-1/10\<close>: the ash load decreases while the mileage increases. With a
  capacity of \<open>-100\<close> (and no negative input) the loads increase, but the soot ratios are 0
  and \<open>-1/100\<close>: every ratio decreases.
\<close>

theorem mileage_monotonicity_counterexample:
  "predict_dpf_state
     \<lparr>DPFInputs.mileage_km = PyFloat 0, avg_speed_kmh = 60, city_ratio = 0,
      oil_ash_content_pct = - 1, fuel_sulfur_ppm = 0, regen_interval_km = 400\<rparr>
     default_DPFParams
     = Inr \<lparr>soot_load = 0, ash_load = 0, total_ratio = Finite 0,
            soot_ratio = Finite 0, ash_ratio = Finite 0\<rparr>
   \<and> predict_dpf_state
     \<lparr>DPFInputs.mileage_km = PyFloat 1000, avg_speed_kmh = 60, city_ratio = 0,
      oil_ash_content_pct = - 1, fuel_sulfur_ppm = 0, regen_interval_km = 400\<rparr>
     default_DPFParams
     = Inr \<lparr>soot_load = 1, ash_load = - (1 / 10), total_ratio = Finite (9 / 1000),
            soot_ratio = Finite (1 / 100), ash_ratio = Finite (- (1 / 1000))\<rparr>
   \<and> \<not> ((0::real) \<le> - (1 / 10))
   \<and> predict_dpf_state
     \<lparr>DPFInputs.mileage_km = PyFloat 0, avg_speed_kmh = 60, city_ratio = 0,
      oil_ash_content_pct = 1, fuel_sulfur_ppm = 0, regen_interval_km = 400\<rparr>
     (default_DPFParams\<lparr>dpf_capacity_units := - 100\<rparr>)
     = Inr \<lparr>soot_load = 0, ash_load = 0, total_ratio = Finite 0,
            soot_ratio = Finite 0, ash_ratio = Finite 0\<rparr>
   \<and> predict_dpf_state
     \<lparr>DPFInputs.mileage_km = PyFloat 1000, avg_speed_kmh = 60, city_ratio = 0,
      oil_ash_content_pct = 1, fuel_sulfur_ppm = 0, regen_interval_km = 400\<rparr>
     (default_DPFParams\<lparr>dpf_capacity_units := - 100\<rparr>)
     = Inr \<lparr>soot_load = 1, ash_load = 1 / 10, total_ratio = Finite (- (11 / 1000)),
            soot_ratio = Finite (- (1 / 100)), ash_ratio = Finite (- (1 / 1000))\<rparr>
   \<and> \<not> ((0::real) \<le> - (1 / 100))"
  by (simp add: default_DPFParams_def predict_dpf_state_def Let_def np_clip_def np_truediv_def)

text \<open>
  Claim C5, amended. Let two inputs agree on all fields except \<open>mileage_km\<close>, the first
  mileage being at most the second, under the same parameters. If the soot rate and the ash
  rate computed for these inputs (lines 59 and 63; neither depends on the mileage) are not
  negative, the capacity is positive and the threshold is not zero, then both calls return
  states, and \<open>soot_load\<close>, \<open>ash_load\<close>, \<open>soot_ratio\<close>, \<open>ash_ratio\<close> and \<open>total_ratio\<close> of
  the first are at most those of the second.
\<close>

theorem mileage_monotonicity:
  assumes "scalar_val (DPFInputs.mileage_km inputs) \<le> scalar_val m"
    and "low_speed_threshold_kmh params \<noteq> 0"
    and "0 < dpf_capacity_units params"
    and "0 \<le> soot_rate inputs params"
    and "0 \<le> ash_rate inputs params"
  shows "\<exists>s1 s2.
      predict_dpf_state inputs params = Inr s1
    \<and> predict_dpf_state (inputs\<lparr>DPFInputs.mileage_km := m\<rparr>) params = Inr s2
    \<and> soot_load s1 \<le> soot_load s2
    \<and> ash_load s1 \<le> ash_load s2
    \<and> (\<exists>a b. soot_ratio s1 = Finite a \<and> soot_ratio s2 = Finite b \<and> a \<le> b)
    \<and> (\<exists>a b. ash_ratio s1 = Finite a \<and> ash_ratio s2 = Finite b \<and> a \<le> b)
    \<and> (\<exists>a b. total_ratio s1 = Finite a \<and> total_ratio s2 = Finite b \<and> a \<le> b)"
proof -
  let ?c = "dpf_capacity_units params"
  let ?inputs2 = "inputs\<lparr>DPFInputs.mileage_km := m\<rparr>"
  have c: "?c \<noteq> 0" "0 < ?c"
    using assms(3) by simp_all
  have ok1: "is_numpy (DPFInputs.mileage_km inputs) \<or> ?c \<noteq> 0"
    and ok2: "is_numpy (DPFInputs.mileage_km ?inputs2) \<or> ?c \<noteq> 0"
    using c(1) by simp_all
  obtain s1 where s1: "predict_dpf_state inputs params = Inr s1"
    "soot_load s1 = soot_rate inputs params * km_thousands inputs"
    "ash_load s1 = ash_rate inputs params * km_thousands inputs"
    "soot_ratio s1 = np_truediv (soot_load s1) ?c"
    "ash_ratio s1 = np_truediv (ash_load s1) ?c"
    "total_ratio s1 = float64_add (soot_ratio s1) (ash_ratio s1)"
    using assms(2) ok1 by (rule predict_dpf_state_fields)
  obtain s2 where s2: "predict_dpf_state ?inputs2 params = Inr s2"
    "soot_load s2 = soot_rate ?inputs2 params * km_thousands ?inputs2"
    "ash_load s2 = ash_rate ?inputs2 params * km_thousands ?inputs2"
    "soot_ratio s2 = np_truediv (soot_load s2) ?c"
    "ash_ratio s2 = np_truediv (ash_load s2) ?c"
    "total_ratio s2 = float64_add (soot_ratio s2) (ash_ratio s2)"
    using assms(2) ok2 by (rule predict_dpf_state_fields)
  have km: "km_thousands inputs \<le> scalar_val m / 1000"
    using assms(1) by (simp add: km_thousands_def)
  have soot: "soot_load s1 \<le> soot_load s2"
    unfolding s1 s2 soot_rate_mileage_update km_thousands_mileage_update
    using km assms(4) by (rule mult_left_mono)
  have ash: "ash_load s1 \<le> ash_load s2"
    unfolding s1 s2 ash_rate_mileage_update km_thousands_mileage_update
    using km assms(5) by (rule mult_left_mono)
  have sr: "soot_ratio s1 = Finite (soot_load s1 / ?c)"
    "soot_ratio s2 = Finite (soot_load s2 / ?c)"
    using c(1) by (simp_all add: s1(4) s2(4) np_truediv_def)
  have ar: "ash_ratio s1 = Finite (ash_load s1 / ?c)"
    "ash_ratio s2 = Finite (ash_load s2 / ?c)"
    using c(1) by (simp_all add: s1(5) s2(5) np_truediv_def)
  have tr: "total_ratio s1 = Finite (soot_load s1 / ?c + ash_load s1 / ?c)"
    "total_ratio s2 = Finite (soot_load s2 / ?c + ash_load s2 / ?c)"
    by (simp_all add: s1(6) s2(6) sr ar)
  have srle: "soot_load s1 / ?c \<le> soot_load s2 / ?c"
    using soot c(2) by (simp add: divide_right_mono)
  have arle: "ash_load s1 / ?c \<le> ash_load s2 / ?c"
    using ash c(2) by (simp add: divide_right_mono)
  have trle: "soot_load s1 / ?c + ash_load s1 / ?c \<le> soot_load s2 / ?c + ash_load s2 / ?c"
    using srle arle by (rule add_mono)
  show ?thesis
    using s1(1) s2(1) soot ash sr ar tr srle arle trle by blast
qed

text \<open>
  The rates are not negative when no parameter and neither the sulfur content nor the oil
  ash content is negative and the threshold is positive, as under the default parameters.
\<close>

lemma rates_nonnegative:
  assumes "0 \<le> base_soot_rate_per_1000km params"
    and "0 \<le> city_sensitivity params"
    and "0 \<le> low_speed_sensitivity params"
    and "0 < low_speed_threshold_kmh params"
    and "0 \<le> sulfur_factor_per_1000ppm params"
    and "0 \<le> ash_factor_per_pct_per_1000km params"
    and "0 \<le> fuel_sulfur_ppm inputs"
    and "0 \<le> oil_ash_content_pct inputs"
  shows "0 \<le> soot_rate inputs params \<and> 0 \<le> ash_rate inputs params"
proof -
  have "0 \<le> np_clip (city_ratio inputs) 0 1"
    by (simp add: np_clip_def)
  then have city: "0 \<le> soot_factor_city inputs params"
    using assms(2) by (simp add: soot_factor_city_def)
  have "0 \<le> low_speed_delta inputs params"
    by (simp add: low_speed_delta_def)
  then have speed: "0 \<le> speed_factor inputs params"
    using assms(3,4) by (simp add: speed_factor_def)
  have sulfur: "0 \<le> sulfur_factor inputs params"
    using assms(5,7) by (simp add: sulfur_factor_def)
  have "0 \<le> soot_rate inputs params"
    unfolding soot_rate_def using assms(1) city speed sulfur by (intro mult_nonneg_nonneg)
  moreover have "0 \<le> ash_rate inputs params"
    unfolding ash_rate_def using assms(6,8) by (intro mult_nonneg_nonneg)
  ultimately show ?thesis by simp
qed

text \<open>The theorem from 20000 km to 50000 km, at a city profile and the default parameters.\<close>

theorem mileage_monotonicity_witness:
  "scalar_val (DPFInputs.mileage_km
      \<lparr>DPFInputs.mileage_km = PyFloat 20000, avg_speed_kmh = 30, city_ratio = 1,
       oil_ash_content_pct = 1, fuel_sulfur_ppm = 0, regen_interval_km = 400\<rparr>)
     \<le> scalar_val (PyFloat 50000)
   \<and> low_speed_threshold_kmh default_DPFParams \<noteq> 0
   \<and> 0 < dpf_capacity_units default_DPFParams
   \<and> 0 \<le> soot_rate
        \<lparr>DPFInputs.mileage_km = PyFloat 20000, avg_speed_kmh = 30, city_ratio = 1,
         oil_ash_content_pct = 1, fuel_sulfur_ppm = 0, regen_interval_km = 400\<rparr>
        default_DPFParams
   \<and> 0 \<le> ash_rate
        \<lparr>DPFInputs.mileage_km = PyFloat 20000, avg_speed_kmh = 30, city_ratio = 1,
         oil_ash_content_pct = 1, fuel_sulfur_ppm = 0, regen_interval_km = 400\<rparr>
        default_DPFParams
   \<and> (\<exists>s1 s2.
        predict_dpf_state
          \<lparr>DPFInputs.mileage_km = PyFloat 20000, avg_speed_kmh = 30, city_ratio = 1,
           oil_ash_content_pct = 1, fuel_sulfur_ppm = 0, regen_interval_km = 400\<rparr>
          default_DPFParams = Inr s1
      \<and> predict_dpf_state
          \<lparr>DPFInputs.mileage_km = PyFloat 50000, avg_speed_kmh = 30, city_ratio = 1,
           oil_ash_content_pct = 1, fuel_sulfur_ppm = 0, regen_interval_km = 400\<rparr>
          default_DPFParams = Inr s2
      \<and> soot_load s1 \<le> soot_load s2
      \<and> ash_load s1 \<le> ash_load s2
      \<and> (\<exists>a b. soot_ratio s1 = Finite a \<and> soot_ratio s2 = Finite b \<and> a \<le> b)
      \<and> (\<exists>a b. ash_ratio s1 = Finite a \<and> ash_ratio s2 = Finite b \<and> a \<le> b)
      \<and> (\<exists>a b. total_ratio s1 = Finite a \<and> total_ratio s2 = Finite b \<and> a \<le> b))"
  using mileage_monotonicity
    [of "\<lparr>DPFInputs.mileage_km = PyFloat 20000, avg_speed_kmh = 30, city_ratio = 1,
          oil_ash_content_pct = 1, fuel_sulfur_ppm = 0, regen_interval_km = 400\<rparr>"
      "PyFloat 50000" default_DPFParams]
  by (simp add: default_DPFParams_def soot_rate_def ash_rate_def soot_factor_city_def
      speed_factor_def low_speed_delta_def sulfur_factor_def np_clip_def)

subsection \<open>Monotonicity in the speed\<close>

text \<open>
  Claim C6 as stated fails. With \<open>low_speed_sensitivity = -1/2\<close> (all other parameters at
  their defaults, threshold 60), two inputs that differ only in the speed, 0 and 30 km/h,
  both below the threshold, give the soot loads \<open>1/2\<close> and \<open>3/4\<close>: the lower speed has the
  smaller soot load.
\<close>

theorem speed_monotonicity_counterexample:
  "predict_dpf_state
     \<lparr>DPFInputs.mileage_km = PyFloat 1000, avg_speed_kmh = 0, city_ratio = 0,
      oil_ash_content_pct = 0, fuel_sulfur_ppm = 0, regen_interval_km = 400\<rparr>
     (default_DPFParams\<lparr>low_speed_sensitivity := - (1 / 2)\<rparr>)
     = Inr \<lparr>soot_load = 1 / 2, ash_load = 0, total_ratio = Finite (1 / 200),
            soot_ratio = Finite (1 / 200), ash_ratio = Finite 0\<rparr>
   \<and> predict_dpf_state
     \<lparr>DPFInputs.mileage_km = PyFloat 1000, avg_speed_kmh = 30, city_ratio = 0,
      oil_ash_content_pct = 0, fuel_sulfur_ppm = 0, regen_interval_km = 400\<rparr>
     (default_DPFParams\<lparr>low_speed_sensitivity := - (1 / 2)\<rparr>)
     = Inr \<lparr>soot_load = 3 / 4, ash_load = 0, total_ratio = Finite (3 / 400),
            soot_ratio = Finite (3 / 400), ash_ratio = Finite 0\<rparr>
   \<and> low_speed_threshold_kmh (default_DPFParams\<lparr>low_speed_sensitivity := - (1 / 2)\<rparr>) = 60
   \<and> \<not> ((3 / 4 :: real) \<le> 1 / 2)"
  by (simp add: default_DPFParams_def predict_dpf_state_def Let_def np_clip_def np_truediv_def)

lemma low_speed_delta_antimono:
  assumes "avg_speed_kmh inputs \<le> v"
  shows "low_speed_delta (inputs\<lparr>avg_speed_kmh := v\<rparr>) params \<le> low_speed_delta inputs params"
  using assms by (simp add: low_speed_delta_def max_def)

lemma speed_factor_antimono:
  assumes "avg_speed_kmh inputs \<le> v"
    and "0 < low_speed_threshold_kmh params"
    and "0 \<le> low_speed_sensitivity params"
  shows "speed_factor (inputs\<lparr>avg_speed_kmh := v\<rparr>) params \<le> speed_factor inputs params"
proof -
  have "low_speed_delta (inputs\<lparr>avg_speed_kmh := v\<rparr>) params / low_speed_threshold_kmh params
          \<le> low_speed_delta inputs params / low_speed_threshold_kmh params"
    using low_speed_delta_antimono [OF assms(1)] assms(2) by (simp add: divide_right_mono)
  then have "low_speed_sensitivity params
               * (low_speed_delta (inputs\<lparr>avg_speed_kmh := v\<rparr>) params
                    / low_speed_threshold_kmh params)
          \<le> low_speed_sensitivity params
               * (low_speed_delta inputs params / low_speed_threshold_kmh params)"
    using assms(3) by (rule mult_left_mono)
  then show ?thesis by (simp add: speed_factor_def)
qed

text \<open>
  Claim C6, amended. Let two inputs agree on all fields except \<open>avg_speed_kmh\<close>, the first
  speed being at most the second (in particular when both are below the threshold and the
  first is lower), under the same parameters. If the threshold is positive, the low-speed
  sensitivity is not negative, the part of the soot product that does not depend on the
  speed (base rate, city factor, sulfur factor and thousands of km) is not negative, and
  the capacity is not zero, then both calls return states and the soot load of the first
  is at least that of the second.
\<close>

theorem speed_monotonicity:
  assumes "avg_speed_kmh inputs \<le> v"
    and "0 < low_speed_threshold_kmh params"
    and "0 \<le> low_speed_sensitivity params"
    and "0 \<le> base_soot_rate_per_1000km params * soot_factor_city inputs params
              * sulfur_factor inputs params * km_thousands inputs"
    and "dpf_capacity_units params \<noteq> 0"
  shows "\<exists>s1 s2.
      predict_dpf_state inputs params = Inr s1
    \<and> predict_dpf_state (inputs\<lparr>avg_speed_kmh := v\<rparr>) params = Inr s2
    \<and> soot_load s2 \<le> soot_load s1"
proof -
  let ?rest = "base_soot_rate_per_1000km params * soot_factor_city inputs params
                 * sulfur_factor inputs params * km_thousands inputs"
  let ?inputs2 = "inputs\<lparr>avg_speed_kmh := v\<rparr>"
  have thr: "low_speed_threshold_kmh params \<noteq> 0"
    using assms(2) by simp
  have "is_numpy (DPFInputs.mileage_km inputs) \<or> dpf_capacity_units params \<noteq> 0"
    using assms(5) by simp
  with thr obtain s1 where s1: "predict_dpf_state inputs params = Inr s1"
    "soot_load s1 = soot_rate inputs params * km_thousands inputs"
    by (rule predict_dpf_state_fields)
  have "is_numpy (DPFInputs.mileage_km ?inputs2) \<or> dpf_capacity_units params \<noteq> 0"
    using assms(5) by simp
  with thr obtain s2 where s2: "predict_dpf_state ?inputs2 params = Inr s2"
    "soot_load s2 = soot_rate ?inputs2 params * km_thousands ?inputs2"
    by (rule predict_dpf_state_fields)
  have l1: "soot_load s1 = ?rest * speed_factor inputs params"
    by (simp add: s1 soot_rate_def)
  have l2: "soot_load s2 = ?rest * speed_factor ?inputs2 params"
    by (simp add: s2 soot_rate_def soot_factor_city_def sulfur_factor_def km_thousands_def)
  have "?rest * speed_factor ?inputs2 params \<le> ?rest * speed_factor inputs params"
    using speed_factor_antimono [OF assms(1,2,3)] assms(4) by (rule mult_left_mono)
  then have "soot_load s2 \<le> soot_load s1"
    by (simp only: l1 l2)
  with s1(1) s2(1) show ?thesis by blast
qed

text \<open>The theorem from 20 km/h to 45 km/h, at the default parameters.\<close>

theorem speed_monotonicity_witness:
  "avg_speed_kmh
      \<lparr>DPFInputs.mileage_km = PyFloat 10000, avg_speed_kmh = 20, city_ratio = 1 / 2,
       oil_ash_content_pct = 1, fuel_sulfur_ppm = 10, regen_interval_km = 400\<rparr> \<le> 45
   \<and> 0 < low_speed_threshold_kmh default_DPFParams
   \<and> 0 \<le> low_speed_sensitivity default_DPFParams
   \<and> 0 \<le> base_soot_rate_per_1000km default_DPFParams
          * soot_factor_city
              \<lparr>DPFInputs.mileage_km = PyFloat 10000, avg_speed_kmh = 20, city_ratio = 1 / 2,
               oil_ash_content_pct = 1, fuel_sulfur_ppm = 10, regen_interval_km = 400\<rparr>
              default_DPFParams
          * sulfur_factor
              \<lparr>DPFInputs.mileage_km = PyFloat 10000, avg_speed_kmh = 20, city_ratio = 1 / 2,
               oil_ash_content_pct = 1, fuel_sulfur_ppm = 10, regen_interval_km = 400\<rparr>
              default_DPFParams
          * km_thousands
              \<lparr>DPFInputs.mileage_km = PyFloat 10000, avg_speed_kmh = 20, city_ratio = 1 / 2,
               oil_ash_content_pct = 1, fuel_sulfur_ppm = 10, regen_interval_km = 400\<rparr>
   \<and> dpf_capacity_units default_DPFParams \<noteq> 0
   \<and> (\<exists>s1 s2.
        predict_dpf_state
          \<lparr>DPFInputs.mileage_km = PyFloat 10000, avg_speed_kmh = 20, city_ratio = 1 / 2,
           oil_ash_content_pct = 1, fuel_sulfur_ppm = 10, regen_interval_km = 400\<rparr>
          default_DPFParams = Inr s1
      \<and> predict_dpf_state
          \<lparr>DPFInputs.mileage_km = PyFloat 10000, avg_speed_kmh = 45, city_ratio = 1 / 2,
           oil_ash_content_pct = 1, fuel_sulfur_ppm = 10, regen_interval_km = 400\<rparr>
          default_DPFParams = Inr s2
      \<and> soot_load s2 \<le> soot_load s1)"
  using speed_monotonicity
    [of "\<lparr>DPFInputs.mileage_km = PyFloat 10000, avg_speed_kmh = 20, city_ratio = 1 / 2,
          oil_ash_content_pct = 1, fuel_sulfur_ppm = 10, regen_interval_km = 400\<rparr>"
      45 default_DPFParams]
  by (simp add: default_DPFParams_def soot_factor_city_def sulfur_factor_def km_thousands_def
      np_clip_def)

subsection \<open>The regeneration interval\<close>

text \<open>
  Claim C10. The field \<open>regen_interval_km\<close> has no influence: two input records that
  differ at most in that field give the same result of \<open>predict_dpf_state\<close>, be it a
  state or an error, under every parameter set.
\<close>

theorem predict_dpf_state_ignores_regen_interval:
  "predict_dpf_state (inputs\<lparr>regen_interval_km := r\<rparr>) params
     = predict_dpf_state inputs params"
  by (simp add: predict_dpf_state_def Let_def)

section \<open>Properties of the mass-balance model\<close>

text \<open>
  Claim C7. \<open>calc_oil_ash_mass_g\<close> returns
  \<open>(mileage_km / 1000 * oil_consumption_l_per_1000km) * density_kg_per_l
    * (sulfated_ash_pct / 100) * 1000\<close>.
  For 10000 km, 0.5 l per 1000 km, 1 percent of sulfated ash and a density of 0.85 kg/l
  the oil amounts to 5 litres and 4.25 kg, and the ash to 42.5 g.
\<close>

theorem calc_oil_ash_mass_g_formula:
  "calc_oil_ash_mass_g profile oil =
     (UsageProfile.mileage_km profile / 1000 * oil_consumption_l_per_1000km profile)
       * OilSpec.density_kg_per_l oil * (sulfated_ash_pct oil / 100) * 1000
   \<and> calc_oil_ash_mass_g profile oil
       = oil_mass_kg profile oil * (sulfated_ash_pct oil / 100) * 1000
   \<and> oil_liters
        \<lparr>UsageProfile.mileage_km = 10000, oil_consumption_l_per_1000km = 1 / 2,
         fuel_consumption_l_per_100km = fuel_rate\<rparr> = 5
   \<and> oil_mass_kg
        \<lparr>UsageProfile.mileage_km = 10000, oil_consumption_l_per_1000km = 1 / 2,
         fuel_consumption_l_per_100km = fuel_rate\<rparr>
        \<lparr>OilSpec.name = oil_name, sulfated_ash_pct = 1, density_kg_per_l = 85 / 100\<rparr>
      = 425 / 100
   \<and> calc_oil_ash_mass_g
        \<lparr>UsageProfile.mileage_km = 10000, oil_consumption_l_per_1000km = 1 / 2,
         fuel_consumption_l_per_100km = fuel_rate\<rparr>
        \<lparr>OilSpec.name = oil_name, sulfated_ash_pct = 1, density_kg_per_l = 85 / 100\<rparr>
      = 425 / 10"
  by (simp add: calc_oil_ash_mass_g_def oil_mass_kg_def oil_liters_def Let_def)

text \<open>
  Claim C8. With a capacity that is not zero, \<open>calc_dpf_ash_fill\<close> returns a dictionary
  with exactly the six keys \<open>oil_ash_g\<close>, \<open>fuel_ash_g\<close>, \<open>total_ash_g\<close>,
  \<open>dpf_capacity_ash_g\<close>, \<open>fill_ratio\<close> and \<open>fill_percent\<close>: the two ash masses of
  \<open>calc_oil_ash_mass_g\<close> and \<open>calc_fuel_ash_mass_g\<close>, their sum, the capacity, the sum
  divided by the capacity, and that ratio times 100.
\<close>

theorem calc_dpf_ash_fill_fields:
  assumes "dpf_capacity_ash_g \<noteq> 0"
  shows "\<exists>result.
     calc_dpf_ash_fill profile oil fuel dpf_capacity_ash_g sulfur_to_ash_factor = Inr result
     \<and> dom result = {''oil_ash_g'', ''fuel_ash_g'', ''total_ash_g'', ''dpf_capacity_ash_g'',
                       ''fill_ratio'', ''fill_percent''}
     \<and> result ''oil_ash_g'' = Some (calc_oil_ash_mass_g profile oil)
     \<and> result ''fuel_ash_g'' = Some (calc_fuel_ash_mass_g profile fuel sulfur_to_ash_factor)
     \<and> result ''total_ash_g'' =
          Some (calc_oil_ash_mass_g profile oil
                + calc_fuel_ash_mass_g profile fuel sulfur_to_ash_factor)
     \<and> result ''dpf_capacity_ash_g'' = Some dpf_capacity_ash_g
     \<and> result ''fill_ratio'' =
          Some ((calc_oil_ash_mass_g profile oil
                 + calc_fuel_ash_mass_g profile fuel sulfur_to_ash_factor) / dpf_capacity_ash_g)
     \<and> result ''fill_percent'' =
          Some ((calc_oil_ash_mass_g profile oil
                 + calc_fuel_ash_mass_g profile fuel sulfur_to_ash_factor) / dpf_capacity_ash_g
                * 100)"
  using assms by (auto simp add: calc_dpf_ash_fill_def Let_def)

text \<open>
  The theorem at 10000 km, 0.5 l of oil per 1000 km and 6 l of fuel per 100 km, an oil of
  1 percent ash and 0.85 kg/l, a fuel of 10 ppm sulfur and 0.84 kg/l, and the default
  capacity and factor: 42.5 g of oil ash, 15.12 g of fuel ash, 57.62 g together.
\<close>

theorem calc_dpf_ash_fill_fields_witness:
  "default_dpf_capacity_ash_g \<noteq> 0
   \<and> (\<exists>result.
        calc_dpf_ash_fill
          \<lparr>UsageProfile.mileage_km = 10000, oil_consumption_l_per_1000km = 1 / 2,
           fuel_consumption_l_per_100km = 6\<rparr>
          \<lparr>OilSpec.name = ''C3 5W-30'', sulfated_ash_pct = 1, density_kg_per_l = 85 / 100\<rparr>
          \<lparr>FuelSpec.name = ''EN 590'', sulfur_ppm = 10, density_kg_per_l = 84 / 100\<rparr>
          default_dpf_capacity_ash_g default_sulfur_to_ash_factor = Inr result
      \<and> result ''oil_ash_g'' = Some (4250 / 100)
      \<and> result ''fuel_ash_g'' = Some (1512 / 100)
      \<and> result ''total_ash_g'' = Some (5762 / 100)
      \<and> result ''dpf_capacity_ash_g'' = Some 120
      \<and> result ''fill_ratio'' = Some (5762 / 12000)
      \<and> result ''fill_percent'' = Some (5762 / 120))"
  using calc_dpf_ash_fill_fields
    [of default_dpf_capacity_ash_g
      "\<lparr>UsageProfile.mileage_km = 10000, oil_consumption_l_per_1000km = 1 / 2,
        fuel_consumption_l_per_100km = 6\<rparr>"
      "\<lparr>OilSpec.name = ''C3 5W-30'', sulfated_ash_pct = 1, density_kg_per_l = 85 / 100\<rparr>"
      "\<lparr>FuelSpec.name = ''EN 590'', sulfur_ppm = 10, density_kg_per_l = 84 / 100\<rparr>"
      default_sulfur_to_ash_factor]
  by (simp add: default_dpf_capacity_ash_g_def default_sulfur_to_ash_factor_def
      calc_oil_ash_mass_g_def calc_fuel_ash_mass_g_def Let_def) blast

section \<open>Properties of the rounding\<close>

lemma round_half_even_of_int: "round_half_even (of_int m) = m"
  by (simp add: round_half_even_def)

lemma round_half_even_error: "\<bar>of_int (round_half_even y) - y\<bar> \<le> 1 / 2"
proof -
  have "of_int \<lfloor>y\<rfloor> \<le> y" "y < of_int \<lfloor>y\<rfloor> + 1"
    by linarith+
  then show ?thesis
    by (auto simp add: round_half_even_def Let_def)
qed

lemma double_ulp_pos: "0 < double_ulp x"
  by (simp add: double_ulp_def)

lemma floor_log2_int:
  assumes "n \<noteq> 0" and "\<bar>n\<bar> < 2 ^ 53"
  shows "0 \<le> \<lfloor>log 2 \<bar>real_of_int n\<bar>\<rfloor> \<and> \<lfloor>log 2 \<bar>real_of_int n\<bar>\<rfloor> \<le> 52"
proof -
  have one: "1 \<le> \<bar>real_of_int n\<bar>"
    using assms(1) by (simp flip: of_int_abs)
  have lt: "\<bar>real_of_int n\<bar> < 2 ^ 53"
    using assms(2) by (metis of_int_abs of_int_less_numeral_power_cancel_iff)
  have "0 \<le> log 2 \<bar>real_of_int n\<bar>"
    using one by simp
  then have lo: "0 \<le> \<lfloor>log 2 \<bar>real_of_int n\<bar>\<rfloor>"
    by simp
  have "log 2 \<bar>real_of_int n\<bar> < 53"
    using one lt by (simp add: log_less_iff)
  then have "\<lfloor>log 2 \<bar>real_of_int n\<bar>\<rfloor> < 53"
    by linarith
  with lo show ?thesis by simp
qed

text \<open>Every integer below \<open>2 ^ 53\<close> in absolute value is a double.\<close>

lemma round_double_of_int:
  assumes "\<bar>n\<bar> < 2 ^ 53"
  shows "round_double (of_int n) = of_int n"
proof (cases "n = 0")
  case True
  then show ?thesis by (simp add: round_double_def)
next
  case False
  define e where "e = \<lfloor>log 2 \<bar>real_of_int n\<bar>\<rfloor>"
  have e: "0 \<le> e" "e \<le> 52"
    using floor_log2_int [OF False assms] by (simp_all add: e_def)
  define k where "k = nat (52 - e)"
  have ulp: "double_ulp (of_int n) = inverse (2 ^ k)"
  proof -
    have "double_ulp (of_int n) = 2 powr of_int (e - 52)"
      using e by (simp add: double_ulp_def e_def max_def)
    also have "of_int (e - 52) = - real k"
      using e by (simp add: k_def)
    also have "2 powr (- real k) = inverse (2 ^ k)"
      by (simp add: powr_minus powr_realpow)
    finally show ?thesis .
  qed
  have quot: "real_of_int n / double_ulp (of_int n) = of_int (n * 2 ^ k)"
    by (simp add: ulp divide_inverse)
  have "round_double (of_int n)
          = of_int (round_half_even (of_int n / double_ulp (of_int n)))
              * double_ulp (of_int n)"
    using False by (simp add: round_double_def)
  also have "\<dots> = of_int (n * 2 ^ k) * double_ulp (of_int n)"
    by (simp only: quot round_half_even_of_int)
  also have "\<dots> = of_int n"
    by (simp add: ulp)
  finally show ?thesis .
qed

lemma round_double_numeral:
  assumes "(numeral n :: int) < 2 ^ 53"
  shows "round_double (numeral n) = numeral n"
  using round_double_of_int [of "numeral n"] assms by simp

lemma round_double_of_nat:
  assumes "n < 2 ^ 53"
  shows "round_double (real n) = real n"
  using round_double_of_int [of "int n"] assms by simp

text \<open>The relative error of a rounding is at most \<open>2 ^ -53\<close>.\<close>

lemma round_double_error:
  assumes "1 \<le> \<bar>x\<bar>"
  shows "\<bar>round_double x - x\<bar> \<le> \<bar>x\<bar> / 2 ^ 53"
proof -
  define e where "e = \<lfloor>log 2 \<bar>x\<bar>\<rfloor>"
  define u where "u = double_ulp x"
  have x0: "x \<noteq> 0"
    using assms by auto
  have "0 \<le> log 2 \<bar>x\<bar>"
    using assms by simp
  then have e0: "0 \<le> e"
    by (simp add: e_def)
  have u: "u = 2 powr (of_int e - 52)"
    using e0 by (simp add: u_def double_ulp_def e_def max_def)
  have upos: "0 < u"
    by (simp add: u)
  have "of_int e \<le> log 2 \<bar>x\<bar>"
    by (simp add: e_def)
  then have "2 powr of_int e \<le> 2 powr log 2 \<bar>x\<bar>"
    by simp
  then have pe: "2 powr of_int e \<le> \<bar>x\<bar>"
    using x0 by simp
  have split: "2 powr of_int e = u * 2 powr 52"
    unfolding u by (simp only: powr_add [symmetric]) simp
  have p52: "(2::real) powr 52 = 2 ^ 52"
    by (rule powr_numeral) simp
  have half: "1 / 2 * u \<le> \<bar>x\<bar> / 2 ^ 53"
  proof -
    have "u * 2 ^ 52 \<le> \<bar>x\<bar>"
      using pe by (simp only: split p52)
    then have "u * 2 ^ 52 / 2 ^ 53 \<le> \<bar>x\<bar> / 2 ^ 53"
      by (rule divide_right_mono) simp
    moreover have "u * 2 ^ 52 / 2 ^ 53 = 1 / 2 * u"
      by simp
    ultimately show ?thesis
      by (simp only:)
  qed
  have "round_double x - x = (of_int (round_half_even (x / u)) - x / u) * u"
    using x0 upos by (simp add: round_double_def u_def left_diff_distrib)
  then have "\<bar>round_double x - x\<bar> = \<bar>of_int (round_half_even (x / u)) - x / u\<bar> * u"
    using upos by (simp add: abs_mult)
  also have "\<dots> \<le> 1 / 2 * u"
    using round_half_even_error [of "x / u"] upos by (intro mult_right_mono) simp_all
  finally show ?thesis
    using half by linarith
qed

text \<open>The rounding of a number whose binary exponent is known.\<close>

lemma powr_neg_nat: "(2::real) powr of_int (- int n) = 1 / 2 ^ n"
  by (simp add: powr_minus powr_realpow divide_inverse)

lemma powr_pos_nat: "(2::real) powr of_int (int n) = 2 ^ n"
  by (simp add: powr_realpow)

lemma double_ulp_eq:
  assumes "2 powr of_int k \<le> \<bar>x\<bar>" and "\<bar>x\<bar> < 2 powr of_int (k + 1)" and "- 1022 \<le> k"
  shows "double_ulp x = 2 powr of_int (k - 52)"
proof -
  have "0 < (2::real) powr of_int k"
    by simp
  then have pos: "0 < \<bar>x\<bar>"
    using assms(1) by (rule less_le_trans)
  have "\<lfloor>log 2 \<bar>x\<bar>\<rfloor> = k"
    using pos assms(1,2) by (simp add: floor_log_eq_powr_iff)
  then show ?thesis
    using assms(3) by (simp add: double_ulp_def max_def)
qed

lemma round_double_eq:
  assumes "2 powr of_int k \<le> \<bar>x\<bar>" and "\<bar>x\<bar> < 2 powr of_int (k + 1)" and "- 1022 \<le> k"
  shows "round_double x
           = of_int (round_half_even (x / 2 powr of_int (k - 52))) * 2 powr of_int (k - 52)"
proof -
  have "0 < (2::real) powr of_int k"
    by simp
  then have "0 < \<bar>x\<bar>"
    using assms(1) by (rule less_le_trans)
  then have "x \<noteq> 0"
    by simp
  then show ?thesis
    by (simp add: round_double_def double_ulp_eq [OF assms])
qed

lemma round_double_quarter:
  assumes "1 / 4 \<le> x" and "x < 1 / 2"
  shows "round_double x = of_int (round_half_even (x * 2 ^ 54)) / 2 ^ 54"
proof -
  have a: "(2::real) powr of_int (- 2) = 1 / 4"
    using powr_neg_nat [of 2] by simp
  have b: "(2::real) powr of_int (- 2 + 1) = 1 / 2"
    using powr_neg_nat [of 1] by simp
  have c: "(2::real) powr of_int (- 2 - 52) = 1 / 2 ^ 54"
    using powr_neg_nat [of 54] by simp
  have lo: "2 powr of_int (- 2) \<le> \<bar>x\<bar>"
    unfolding a using assms by linarith
  have hi: "\<bar>x\<bar> < 2 powr of_int (- 2 + 1)"
    unfolding b using assms by linarith
  have "round_double x
          = of_int (round_half_even (x / 2 powr of_int (- 2 - 52)))
              * 2 powr of_int (- 2 - 52)"
    using lo hi by (rule round_double_eq) simp
  then show ?thesis
    unfolding c by simp
qed

lemma round_double_two:
  assumes "2 \<le> x" and "x < 4"
  shows "round_double x = of_int (round_half_even (x * 2 ^ 51)) / 2 ^ 51"
proof -
  have a: "(2::real) powr of_int 1 = 2"
    using powr_pos_nat [of 1] by simp
  have b: "(2::real) powr of_int (1 + 1) = 4"
    using powr_pos_nat [of 2] by simp
  have c: "(2::real) powr of_int (1 - 52) = 1 / 2 ^ 51"
    using powr_neg_nat [of 51] by simp
  have lo: "2 powr of_int 1 \<le> \<bar>x\<bar>"
    unfolding a using assms by linarith
  have hi: "\<bar>x\<bar> < 2 powr of_int (1 + 1)"
    unfolding b using assms by linarith
  have "round_double x
          = of_int (round_half_even (x / 2 powr of_int (1 - 52)))
              * 2 powr of_int (1 - 52)"
    using lo hi by (rule round_double_eq) simp
  then show ?thesis
    unfolding c by simp
qed

lemma round_double_huge:
  assumes "2 ^ 63 \<le> x" and "x < 2 ^ 64"
  shows "round_double x = of_int (round_half_even (x / 2 ^ 11)) * 2 ^ 11"
proof -
  have a: "(2::real) powr of_int 63 = 2 ^ 63"
    using powr_pos_nat [of 63] by simp
  have b: "(2::real) powr of_int (63 + 1) = 2 ^ 64"
    using powr_pos_nat [of 64] by simp
  have c: "(2::real) powr of_int (63 - 52) = 2 ^ 11"
    using powr_pos_nat [of 11] by simp
  have "(0::real) \<le> 2 ^ 63"
    by simp
  then have pos: "0 \<le> x"
    using assms(1) by (rule order_trans)
  have lo: "2 powr of_int 63 \<le> \<bar>x\<bar>"
    unfolding a using assms(1) pos by (simp only: abs_of_nonneg)
  have hi: "\<bar>x\<bar> < 2 powr of_int (63 + 1)"
    unfolding b using assms(2) pos by (simp only: abs_of_nonneg)
  have "round_double x
          = of_int (round_half_even (x / 2 powr of_int (63 - 52)))
              * 2 powr of_int (63 - 52)"
    using lo hi by (rule round_double_eq) simp
  then show ?thesis
    unfolding c by simp
qed


section \<open>Properties of the lifecycle sweep\<close>

subsection \<open>The array of checkpoints\<close>

lemma multiples_exact:
  assumes "i * s < 2 ^ 53" and "k \<le> i"
  shows "round_double (real k * real s) = real k * real s"
proof -
  have "k * s \<le> i * s"
    using assms(2) by (rule mult_le_mono1)
  then have "k * s < 2 ^ 53"
    using assms(1) by (rule le_less_trans)
  then have "round_double (real (k * s)) = real (k * s)"
    by (rule round_double_of_nat)
  then show ?thesis
    by simp
qed

lemma np_arange_item_exact:
  assumes "i * s < 2 ^ 53"
  shows "np_arange_item 0 (real s) i = real i * real s"
proof -
  have one: "round_double (real s) = real s" if "1 \<le> i"
    using multiples_exact [OF assms that] by simp
  have self: "round_double (real i * real s) = real i * real s"
    using multiples_exact [OF assms order_refl] .
  show ?thesis
  proof (cases "i = 0 \<or> i = 1")
    case True
    then show ?thesis
      using one by (auto simp add: np_arange_item_def)
  next
    case False
    then have "1 \<le> i"
      by simp
    then show ?thesis
      using False one self by (simp add: np_arange_item_def Let_def)
  qed
qed

lemma np_arange_length_exact:
  assumes "0 < s" and "Suc j * s < 2 ^ 53"
  shows "np_arange_length 0 (round_double (real (j * s) + real s)) (real s) = int (Suc j)"
proof -
  have sum: "real (j * s) + real s = real (Suc j * s)"
    by simp
  have r1: "round_double (real (Suc j * s)) = real (Suc j * s)"
    using assms(2) by (rule round_double_of_nat)
  have "Suc j * 1 \<le> Suc j * s"
    using assms(1) by (intro mult_le_mono2) simp
  then have "Suc j \<le> Suc j * s"
    by (simp only: mult_1_right)
  then have "Suc j < 2 ^ 53"
    using assms(2) by (rule le_less_trans)
  then have r2: "round_double (real (Suc j)) = real (Suc j)"
    by (rule round_double_of_nat)
  have quot: "real (Suc j * s) / real s = real (Suc j)"
    using assms(1) by (simp add: field_simps)
  show ?thesis
    unfolding np_arange_length_def sum
    by (simp only: r1 diff_zero quot r2 ceiling_of_nat)
qed


lemma ceiling_round_double_12_5: "\<lceil>round_double (12 / 5)\<rceil> = 3"
proof -
  have "\<bar>round_double (12 / 5) - 12 / 5\<bar> \<le> \<bar>12 / 5 :: real\<bar> / 2 ^ 53"
    by (rule round_double_error) simp
  also have "\<dots> \<le> 1 / 10"
    by simp
  finally have "2 < round_double (12 / 5)" "round_double (12 / 5) \<le> 3"
    by linarith+
  then show ?thesis
    by (simp add: ceiling_eq_iff)
qed

subsection \<open>The loop\<close>

lemma checkpoint_inputs:
  "\<lparr>DPFInputs.mileage_km = m, avg_speed_kmh = avg_speed_kmh base_inputs,
    city_ratio = city_ratio base_inputs,
    oil_ash_content_pct = oil_ash_content_pct base_inputs,
    fuel_sulfur_ppm = fuel_sulfur_ppm base_inputs,
    regen_interval_km = regen_interval_km base_inputs\<rparr>
   = base_inputs\<lparr>DPFInputs.mileage_km := m\<rparr>"
  by simp

lemma checkpoint_row_state:
  assumes "low_speed_threshold_kmh params \<noteq> 0"
  shows "predict_dpf_state (fst (checkpoint_row base_inputs params m)) params
           = Inr (snd (checkpoint_row base_inputs params m))"
proof -
  let ?inp = "base_inputs\<lparr>DPFInputs.mileage_km := NpFloat64 m\<rparr>"
  have "is_numpy (DPFInputs.mileage_km ?inp) \<or> dpf_capacity_units params \<noteq> 0"
    by simp
  with assms obtain state where "predict_dpf_state ?inp params = Inr state"
    by (rule predict_dpf_state_fields)
  then show ?thesis
    by (simp add: checkpoint_row_def)
qed

text \<open>With a threshold that is not zero the loop appends one row per element, in order.\<close>

lemma lifecycle_records_returns:
  assumes "low_speed_threshold_kmh params \<noteq> 0"
  shows "lifecycle_records base_inputs params mileages records =
     Inr (records @ map (checkpoint_row base_inputs params) mileages)"
proof (induction mileages arbitrary: records)
  case Nil
  show ?case by simp
next
  case (Cons m mileages)
  let ?inp = "base_inputs\<lparr>DPFInputs.mileage_km := NpFloat64 m\<rparr>"
  have "is_numpy (DPFInputs.mileage_km ?inp) \<or> dpf_capacity_units params \<noteq> 0"
    by simp
  with assms obtain state where "predict_dpf_state ?inp params = Inr state"
    by (rule predict_dpf_state_fields)
  then show ?case
    by (simp add: Cons.IH checkpoint_inputs checkpoint_row_def Let_def del: DPFInputs.simps)
qed


text \<open>
  What the sweep returns when the step and the threshold are not zero and the array can be
  created: one row for every element of the array, in its order.
\<close>

lemma simulate_vehicle_lifecycle_returns:
  assumes "step_km \<noteq> 0"
    and "low_speed_threshold_kmh params \<noteq> 0"
    and "np_arange_length 0 (round_double (max_mileage_km + step_km)) step_km
           \<le> int max_length"
  shows "simulate_vehicle_lifecycle max_length base_inputs max_mileage_km step_km params =
     Inr (map (\<lambda>k. checkpoint_row base_inputs params (np_arange_item 0 step_km k))
            [0..<nat (np_arange_length 0 (round_double (max_mileage_km + step_km)) step_km)])"
  using assms
  by (simp add: simulate_vehicle_lifecycle_def np_arange_def lifecycle_records_returns comp_def)

lemma mileage_column_checkpoints:
  "mileage_column (map (\<lambda>k. checkpoint_row base_inputs params (f k)) ks) = map f ks"
  by (simp add: mileage_column_def checkpoint_row_def comp_def)

lemma sorted_multiples:
  assumes "0 < (step :: real)"
  shows "sorted_wrt (<) (map (\<lambda>k. real k * step) [0..<n])"
  using assms by (simp add: sorted_wrt_map sorted_wrt_iff_nth_less)

lemma checkpoint_row_nth:
  assumes "k < n"
  shows "map (\<lambda>k. checkpoint_row base_inputs params (real k * step_km)) [0..<n] ! k
           = checkpoint_row base_inputs params (real k * step_km)"
  using assms by simp

text \<open>
  Whole numbers of km below \<open>2 ^ 53\<close>: the sum, the quotient and the elements are exact, so
  a maximum of \<open>j\<close> steps gives the \<open>j + 1\<close> multiples of the step.
\<close>

lemma simulate_vehicle_lifecycle_multiples:
  assumes "0 < s"
    and "Suc j * s < 2 ^ 53"
    and "Suc j \<le> max_length"
    and "low_speed_threshold_kmh params \<noteq> 0"
  shows "simulate_vehicle_lifecycle max_length base_inputs (real (j * s)) (real s) params =
     Inr (map (\<lambda>k. checkpoint_row base_inputs params (real k * real s)) [0..<Suc j])"
proof -
  have len: "np_arange_length 0 (round_double (real (j * s) + real s)) (real s) = int (Suc j)"
    using assms(1,2) by (rule np_arange_length_exact)
  have step: "real s \<noteq> 0"
    using assms(1) by simp
  have fits: "np_arange_length 0 (round_double (real (j * s) + real s)) (real s)
                \<le> int max_length"
    using assms(3) by (simp only: len of_nat_le_iff)
  have item: "np_arange_item 0 (real s) k = real k * real s" if "k \<in> set [0..<Suc j]" for k
  proof -
    have "k \<le> Suc j"
      using that by auto
    then have "k * s \<le> Suc j * s"
      by (rule mult_le_mono1)
    then have "k * s < 2 ^ 53"
      using assms(2) by (rule le_less_trans)
    then show ?thesis
      by (rule np_arange_item_exact)
  qed
  have "simulate_vehicle_lifecycle max_length base_inputs (real (j * s)) (real s) params =
     Inr (map (\<lambda>k. checkpoint_row base_inputs params (np_arange_item 0 (real s) k))
            [0..<nat (int (Suc j))])"
    using simulate_vehicle_lifecycle_returns [OF step assms(4) fits, of base_inputs]
    by (simp only: len)
  also have "nat (int (Suc j)) = Suc j"
    by simp
  also have "map (\<lambda>k. checkpoint_row base_inputs params (np_arange_item 0 (real s) k))
                 [0..<Suc j]
             = map (\<lambda>k. checkpoint_row base_inputs params (real k * real s)) [0..<Suc j]"
    using item by (intro map_cong) simp_all
  finally show ?thesis .
qed

lemma simulate_vehicle_lifecycle_three_rows:
  assumes "low_speed_threshold_kmh params \<noteq> 0" and "3 \<le> max_length"
  shows "\<exists>rows.
      simulate_vehicle_lifecycle max_length base_inputs 10000 5000 params = Inr rows
    \<and> length rows = 3
    \<and> mileage_column rows = [0, 5000, 10000]"
proof -
  have "simulate_vehicle_lifecycle max_length base_inputs (real (2 * 5000)) (real 5000) params =
     Inr (map (\<lambda>k. checkpoint_row base_inputs params (real k * real 5000)) [0..<Suc 2])"
    using assms by (intro simulate_vehicle_lifecycle_multiples) simp_all
  then have "simulate_vehicle_lifecycle max_length base_inputs 10000 5000 params =
     Inr (map (\<lambda>k. checkpoint_row base_inputs params (real k * 5000)) [0..<Suc 2])"
    by simp
  moreover have "mileage_column
       (map (\<lambda>k. checkpoint_row base_inputs params (real k * 5000)) [0..<Suc 2])
     = [0, 5000, 10000]"
    by (simp only: mileage_column_checkpoints) (simp add: upt_rec)
  ultimately show ?thesis
    by simp
qed

subsection \<open>Where the rounding changes the number of rows\<close>

text \<open>
  The double nearest to 0.1 is \<open>3602879701896397 / 2 ^ 55\<close>, and the double nearest to
  0.2 is twice that. Their sum is rounded up (a tie, to the even significand), and so is
  the quotient of the sum by the step: the array has four elements, not three.
\<close>

lemma round_double_three_tenths:
  "round_double (2 * (3602879701896397 / 36028797018963968) + 3602879701896397 / 36028797018963968)
     = 5404319552844596 / 18014398509481984"
proof -
  have "round_double (10808639105689191 / 36028797018963968)
          = of_int (round_half_even (10808639105689191 / 36028797018963968 * 2 ^ 54)) / 2 ^ 54"
    by (rule round_double_quarter) simp_all
  also have "\<dots> = 5404319552844596 / 18014398509481984"
    by (simp add: round_half_even_def Let_def)
  finally show ?thesis
    by simp
qed

lemma round_double_stop:
  "round_double (5404319552844596 / 18014398509481984 - 0)
     = 5404319552844596 / 18014398509481984"
proof -
  have "round_double (5404319552844596 / 18014398509481984)
          = of_int (round_half_even (5404319552844596 / 18014398509481984 * 2 ^ 54)) / 2 ^ 54"
    by (rule round_double_quarter) simp_all
  also have "\<dots> = 5404319552844596 / 18014398509481984"
    by (simp add: round_half_even_def Let_def)
  finally show ?thesis
    by simp
qed

lemma round_double_quotient:
  "round_double (5404319552844596 / 18014398509481984
                   / (3602879701896397 / 36028797018963968))
     = 6755399441055745 / 2251799813685248"
proof -
  have "round_double (10808639105689192 / 3602879701896397)
          = of_int (round_half_even (10808639105689192 / 3602879701896397 * 2 ^ 51)) / 2 ^ 51"
    by (rule round_double_two) simp_all
  also have "\<dots> = 6755399441055745 / 2251799813685248"
    by (simp add: round_half_even_def Let_def)
  finally show ?thesis
    by simp
qed

lemma np_arange_length_tenths:
  "np_arange_length 0
     (round_double (2 * (3602879701896397 / 36028797018963968)
                      + 3602879701896397 / 36028797018963968))
     (3602879701896397 / 36028797018963968) = 4"
  unfolding np_arange_length_def round_double_three_tenths round_double_stop
    round_double_quotient
  by (simp add: ceiling_eq_iff)

lemma simulate_vehicle_lifecycle_tenths:
  assumes "low_speed_threshold_kmh params \<noteq> 0" and "4 \<le> max_length"
  shows "\<exists>rows.
      simulate_vehicle_lifecycle max_length base_inputs
        (2 * (3602879701896397 / 36028797018963968))
        (3602879701896397 / 36028797018963968) params = Inr rows
    \<and> length rows = 4"
proof -
  have step: "(3602879701896397 / 36028797018963968 :: real) \<noteq> 0"
    by simp
  have fits: "np_arange_length 0
     (round_double (2 * (3602879701896397 / 36028797018963968)
                      + 3602879701896397 / 36028797018963968))
     (3602879701896397 / 36028797018963968) \<le> int max_length"
    unfolding np_arange_length_tenths using assms(2) by linarith
  have "simulate_vehicle_lifecycle max_length base_inputs
        (2 * (3602879701896397 / 36028797018963968))
        (3602879701896397 / 36028797018963968) params =
     Inr (map (\<lambda>k. checkpoint_row base_inputs params
                      (np_arange_item 0 (3602879701896397 / 36028797018963968) k))
            [0..<nat 4])"
    using simulate_vehicle_lifecycle_returns [OF step assms(1) fits, of base_inputs]
    by (simp only: np_arange_length_tenths)
  then show ?thesis
    by simp
qed

subsection \<open>The checkpoints\<close>

text \<open>
  Claim C1 as stated fails, at two inputs. With \<open>max_mileage_km = 7000\<close> and
  \<open>step_km = 5000\<close> under the default parameters the table has the three rows of
  0, 5000 and 10000 km: the last checkpoint lies beyond the maximum. And with a low-speed
  threshold of zero the call raises instead of returning a table. (The platform creates
  arrays of up to a million elements here; any other bound from 3 on gives the same.)
\<close>

theorem simulate_vehicle_lifecycle_counterexample:
  "simulate_vehicle_lifecycle 1000000
     \<lparr>DPFInputs.mileage_km = PyFloat 0, avg_speed_kmh = 60, city_ratio = 0,
      oil_ash_content_pct = 1, fuel_sulfur_ppm = 0, regen_interval_km = 400\<rparr>
     7000 5000 default_DPFParams
   = Inr [(\<lparr>DPFInputs.mileage_km = NpFloat64 0, avg_speed_kmh = 60, city_ratio = 0,
            oil_ash_content_pct = 1, fuel_sulfur_ppm = 0, regen_interval_km = 400\<rparr>,
           \<lparr>soot_load = 0, ash_load = 0, total_ratio = Finite 0,
            soot_ratio = Finite 0, ash_ratio = Finite 0\<rparr>),
          (\<lparr>DPFInputs.mileage_km = NpFloat64 5000, avg_speed_kmh = 60, city_ratio = 0,
            oil_ash_content_pct = 1, fuel_sulfur_ppm = 0, regen_interval_km = 400\<rparr>,
           \<lparr>soot_load = 5, ash_load = 1 / 2, total_ratio = Finite (55 / 1000),
            soot_ratio = Finite (5 / 100), ash_ratio = Finite (5 / 1000)\<rparr>),
          (\<lparr>DPFInputs.mileage_km = NpFloat64 10000, avg_speed_kmh = 60, city_ratio = 0,
            oil_ash_content_pct = 1, fuel_sulfur_ppm = 0, regen_interval_km = 400\<rparr>,
           \<lparr>soot_load = 10, ash_load = 1, total_ratio = Finite (11 / 100),
            soot_ratio = Finite (1 / 10), ash_ratio = Finite (1 / 100)\<rparr>)]
   \<and> \<not> ((10000::real) \<le> 7000)
   \<and> simulate_vehicle_lifecycle 1000000
       \<lparr>DPFInputs.mileage_km = PyFloat 0, avg_speed_kmh = 60, city_ratio = 0,
        oil_ash_content_pct = 1, fuel_sulfur_ppm = 0, regen_interval_km = 400\<rparr>
       10000 5000 (default_DPFParams\<lparr>low_speed_threshold_kmh := 0\<rparr>)
     = Inl ZeroDivisionError"
  by (simp add: simulate_vehicle_lifecycle_def np_arange_def np_arange_length_def
      np_arange_item_def round_double_numeral ceiling_round_double_12_5 upt_rec
      default_DPFParams_def predict_dpf_state_def Let_def np_clip_def np_truediv_def)


text \<open>
  Claim C1, amended. Let the step and the maximum be whole numbers of km, the step positive
  and the maximum a multiple \<open>j * step_km\<close> of it, with \<open>max_mileage_km + step_km\<close> below
  \<open>2 ^ 53\<close> (so that the sum, the quotient and the checkpoints are exact in doubles); let
  NumPy create arrays of \<open>j + 1\<close> elements, and let the threshold and the capacity not
  be zero. Then \<open>simulate_vehicle_lifecycle\<close> returns exactly \<open>j + 1\<close> rows, with the
  mileages \<open>0, step_km, \<dots>, max_mileage_km\<close> in ascending order. Row \<open>k\<close> holds the base
  inputs with \<open>mileage_km\<close> replaced by \<open>k * step_km\<close>, and its state is the one a direct
  call of \<open>predict_dpf_state\<close> returns for these inputs (for the NumPy scalar of the table
  as for a Python float of the same value). In particular a maximum of 10000 and a step of
  5000 give exactly 3 rows, at 0, 5000 and 10000 km.
\<close>

theorem simulate_vehicle_lifecycle_checkpoints:
  assumes "0 < s"
    and "step_km = real s"
    and "max_mileage_km = real (j * s)"
    and "Suc j * s < 2 ^ 53"
    and "Suc j \<le> max_length"
    and "low_speed_threshold_kmh params \<noteq> 0"
    and "dpf_capacity_units params \<noteq> 0"
  shows "(\<exists>rows.
      simulate_vehicle_lifecycle max_length base_inputs max_mileage_km step_km params
        = Inr rows
    \<and> length rows = Suc j
    \<and> mileage_column rows = map (\<lambda>k. real k * step_km) [0..<Suc j]
    \<and> hd (mileage_column rows) = 0
    \<and> last (mileage_column rows) = max_mileage_km
    \<and> sorted_wrt (<) (mileage_column rows)
    \<and> (\<forall>k < length rows.
          fst (rows ! k)
            = base_inputs\<lparr>DPFInputs.mileage_km := NpFloat64 (real k * step_km)\<rparr>
        \<and> predict_dpf_state
            (base_inputs\<lparr>DPFInputs.mileage_km := NpFloat64 (real k * step_km)\<rparr>) params
            = Inr (snd (rows ! k))
        \<and> predict_dpf_state
            (base_inputs\<lparr>DPFInputs.mileage_km := PyFloat (real k * step_km)\<rparr>) params
            = Inr (snd (rows ! k))))
   \<and> (3 \<le> max_length \<longrightarrow>
       (\<exists>rows.
          simulate_vehicle_lifecycle max_length base_inputs 10000 5000 params = Inr rows
        \<and> length rows = 3
        \<and> mileage_column rows = [0, 5000, 10000]))"
proof -
  let ?rows = "map (\<lambda>k. checkpoint_row base_inputs params (real k * step_km)) [0..<Suc j]"
  have step: "0 < step_km"
    using assms(1,2) by simp
  have ret: "simulate_vehicle_lifecycle max_length base_inputs max_mileage_km step_km params
               = Inr ?rows"
    unfolding assms(2,3) using assms(1,4,5,6) by (rule simulate_vehicle_lifecycle_multiples)
  have len: "length ?rows = Suc j"
    by simp
  have col: "mileage_column ?rows = map (\<lambda>k. real k * step_km) [0..<Suc j]"
    by (simp only: mileage_column_checkpoints)
  have first: "hd (mileage_column ?rows) = 0"
    unfolding col by (simp add: upt_conv_Cons del: upt_Suc)
  have final: "last (mileage_column ?rows) = max_mileage_km"
    unfolding col by (simp add: assms(2,3))
  have srt: "sorted_wrt (<) (mileage_column ?rows)"
    unfolding col using step by (rule sorted_multiples)
  have row: "fst (?rows ! k)
            = base_inputs\<lparr>DPFInputs.mileage_km := NpFloat64 (real k * step_km)\<rparr>
        \<and> predict_dpf_state
            (base_inputs\<lparr>DPFInputs.mileage_km := NpFloat64 (real k * step_km)\<rparr>) params
            = Inr (snd (?rows ! k))
        \<and> predict_dpf_state
            (base_inputs\<lparr>DPFInputs.mileage_km := PyFloat (real k * step_km)\<rparr>) params
            = Inr (snd (?rows ! k))" if "k < length ?rows" for k
  proof -
    have k: "k < Suc j"
      using that by simp
    have nth: "?rows ! k = checkpoint_row base_inputs params (real k * step_km)"
      using k by (rule checkpoint_row_nth)
    have st: "predict_dpf_state
                (base_inputs\<lparr>DPFInputs.mileage_km := NpFloat64 (real k * step_km)\<rparr>) params
              = Inr (snd (checkpoint_row base_inputs params (real k * step_km)))"
      using checkpoint_row_state [OF assms(6), of base_inputs "real k * step_km"]
      by (simp add: checkpoint_row_def)
    have py: "predict_dpf_state
                (base_inputs\<lparr>DPFInputs.mileage_km := PyFloat (real k * step_km)\<rparr>) params
              = Inr (snd (checkpoint_row base_inputs params (real k * step_km)))"
      using st by (simp only: predict_dpf_state_scalar_kind [OF assms(7)])
    have "fst (checkpoint_row base_inputs params (real k * step_km))
            = base_inputs\<lparr>DPFInputs.mileage_km := NpFloat64 (real k * step_km)\<rparr>"
      by (simp add: checkpoint_row_def)
    then show ?thesis
      unfolding nth using st py by (intro conjI)
  qed
  have general: "\<exists>rows.
      simulate_vehicle_lifecycle max_length base_inputs max_mileage_km step_km params
        = Inr rows
    \<and> length rows = Suc j
    \<and> mileage_column rows = map (\<lambda>k. real k * step_km) [0..<Suc j]
    \<and> hd (mileage_column rows) = 0
    \<and> last (mileage_column rows) = max_mileage_km
    \<and> sorted_wrt (<) (mileage_column rows)
    \<and> (\<forall>k < length rows.
          fst (rows ! k)
            = base_inputs\<lparr>DPFInputs.mileage_km := NpFloat64 (real k * step_km)\<rparr>
        \<and> predict_dpf_state
            (base_inputs\<lparr>DPFInputs.mileage_km := NpFloat64 (real k * step_km)\<rparr>) params
            = Inr (snd (rows ! k))
        \<and> predict_dpf_state
            (base_inputs\<lparr>DPFInputs.mileage_km := PyFloat (real k * step_km)\<rparr>) params
            = Inr (snd (rows ! k)))"
    using ret len col first final srt row by blast
  have three: "3 \<le> max_length \<longrightarrow>
       (\<exists>rows.
          simulate_vehicle_lifecycle max_length base_inputs 10000 5000 params = Inr rows
        \<and> length rows = 3
        \<and> mileage_column rows = [0, 5000, 10000])"
    using simulate_vehicle_lifecycle_three_rows [OF assms(6), of max_length base_inputs]
    by blast
  show ?thesis
    using general three by (rule conjI)
qed

text \<open>
  The theorem at a maximum of 5000 km in steps of 2500 km, for a city profile and the
  default parameters, where arrays of up to a million elements are created: three rows, at
  0, 2500 and 5000 km.
\<close>

theorem simulate_vehicle_lifecycle_checkpoints_witness:
  "(0::nat) < 2500
   \<and> (2500::real) = real (2500::nat)
   \<and> (5000::real) = real (2 * 2500 :: nat)
   \<and> Suc 2 * 2500 < (2::nat) ^ 53
   \<and> Suc 2 \<le> (1000000::nat)
   \<and> low_speed_threshold_kmh default_DPFParams \<noteq> 0
   \<and> dpf_capacity_units default_DPFParams \<noteq> 0
   \<and> (\<exists>rows.
        simulate_vehicle_lifecycle 1000000
          \<lparr>DPFInputs.mileage_km = PyFloat 0, avg_speed_kmh = 35, city_ratio = 7 / 10,
           oil_ash_content_pct = 4 / 5, fuel_sulfur_ppm = 10, regen_interval_km = 400\<rparr>
          5000 2500 default_DPFParams = Inr rows
      \<and> length rows = 3
      \<and> mileage_column rows = [0, 2500, 5000]
      \<and> last (mileage_column rows) = 5000
      \<and> sorted_wrt (<) (mileage_column rows))"
proof -
  have s: "(0::nat) < 2500"
    by simp
  have step: "(2500::real) = real (2500::nat)"
    by simp
  have mult: "(5000::real) = real (2 * 2500 :: nat)"
    by simp
  have bound: "Suc 2 * 2500 < (2::nat) ^ 53"
    by simp
  have fits: "Suc 2 \<le> (1000000::nat)"
    by simp
  have thr: "low_speed_threshold_kmh default_DPFParams \<noteq> 0"
    by (simp add: default_DPFParams_def)
  have cap: "dpf_capacity_units default_DPFParams \<noteq> 0"
    by (simp add: default_DPFParams_def)
  obtain rows where
    "simulate_vehicle_lifecycle 1000000
       \<lparr>DPFInputs.mileage_km = PyFloat 0, avg_speed_kmh = 35, city_ratio = 7 / 10,
        oil_ash_content_pct = 4 / 5, fuel_sulfur_ppm = 10, regen_interval_km = 400\<rparr>
       5000 2500 default_DPFParams = Inr rows"
    and "length rows = Suc 2"
    and "mileage_column rows = map (\<lambda>k. real k * 2500) [0..<Suc 2]"
    and "last (mileage_column rows) = 5000"
    and "sorted_wrt (<) (mileage_column rows)"
    using simulate_vehicle_lifecycle_checkpoints [OF s step mult bound fits thr cap, of
        "\<lparr>DPFInputs.mileage_km = PyFloat 0, avg_speed_kmh = 35, city_ratio = 7 / 10,
          oil_ash_content_pct = 4 / 5, fuel_sulfur_ppm = 10, regen_interval_km = 400\<rparr>"]
    by blast
  then have "\<exists>rows.
        simulate_vehicle_lifecycle 1000000
          \<lparr>DPFInputs.mileage_km = PyFloat 0, avg_speed_kmh = 35, city_ratio = 7 / 10,
           oil_ash_content_pct = 4 / 5, fuel_sulfur_ppm = 10, regen_interval_km = 400\<rparr>
          5000 2500 default_DPFParams = Inr rows
      \<and> length rows = 3
      \<and> mileage_column rows = [0, 2500, 5000]
      \<and> last (mileage_column rows) = 5000
      \<and> sorted_wrt (<) (mileage_column rows)"
    by (simp add: upt_rec)
  then show ?thesis
    using s step mult bound fits thr cap by (intro conjI)
qed

section \<open>Failures\<close>




text \<open>A zero capacity inside the sweep does not raise: the three ratios are not finite.\<close>

lemma simulate_vehicle_lifecycle_zero_capacity:
  "simulate_vehicle_lifecycle 1000000
       \<lparr>DPFInputs.mileage_km = PyFloat 0, avg_speed_kmh = 60, city_ratio = 0,
        oil_ash_content_pct = 1, fuel_sulfur_ppm = 0, regen_interval_km = 400\<rparr>
       5000 5000 (default_DPFParams\<lparr>dpf_capacity_units := 0\<rparr>)
     = Inr [(\<lparr>DPFInputs.mileage_km = NpFloat64 0, avg_speed_kmh = 60, city_ratio = 0,
              oil_ash_content_pct = 1, fuel_sulfur_ppm = 0, regen_interval_km = 400\<rparr>,
             \<lparr>soot_load = 0, ash_load = 0, total_ratio = NonFinite,
              soot_ratio = NonFinite, ash_ratio = NonFinite\<rparr>),
            (\<lparr>DPFInputs.mileage_km = NpFloat64 5000, avg_speed_kmh = 60, city_ratio = 0,
              oil_ash_content_pct = 1, fuel_sulfur_ppm = 0, regen_interval_km = 400\<rparr>,
             \<lparr>soot_load = 5, ash_load = 1 / 2, total_ratio = NonFinite,
              soot_ratio = NonFinite, ash_ratio = NonFinite\<rparr>)]"
  by (simp add: simulate_vehicle_lifecycle_def np_arange_def np_arange_length_def
      np_arange_item_def round_double_numeral upt_rec default_DPFParams_def
      predict_dpf_state_def Let_def np_clip_def np_truediv_def)

text \<open>The sweep is refused when the array of checkpoints is longer than NumPy creates.\<close>

lemma simulate_vehicle_lifecycle_too_long:
  assumes "step_km \<noteq> 0"
    and "int max_length
           < np_arange_length 0 (round_double (max_mileage_km + step_km)) step_km"
  shows "simulate_vehicle_lifecycle max_length base_inputs max_mileage_km step_km params
           = Inl ValueError"
  using assms by (simp add: simulate_vehicle_lifecycle_def np_arange_def)

text \<open>
  An example on a 64-bit platform, where no array has more than \<open>2 ^ 63 - 1\<close> elements:
  a sweep up to \<open>10 ^ 19\<close> km in steps of 1 km is refused.
\<close>

lemma round_double_1e19_plus_1:
  "round_double (10000000000000000000 + 1) = 10000000000000000000"
proof -
  have "round_double 10000000000000000001
          = of_int (round_half_even (10000000000000000001 / 2 ^ 11)) * 2 ^ 11"
    by (rule round_double_huge) simp_all
  also have "\<dots> = 10000000000000000000"
    by (simp add: round_half_even_def Let_def)
  finally show ?thesis
    by simp
qed

lemma round_double_1e19:
  "round_double 10000000000000000000 = 10000000000000000000"
proof -
  have "round_double 10000000000000000000
          = of_int (round_half_even (10000000000000000000 / 2 ^ 11)) * 2 ^ 11"
    by (rule round_double_huge) simp_all
  also have "\<dots> = 10000000000000000000"
    by (simp add: round_half_even_def Let_def)
  finally show ?thesis .
qed

lemma np_arange_length_1e19:
  "np_arange_length 0 (round_double (10000000000000000000 + 1)) 1 = 10000000000000000000"
  unfolding np_arange_length_def round_double_1e19_plus_1
  by (simp add: round_double_1e19)

lemma simulate_vehicle_lifecycle_1e19:
  "simulate_vehicle_lifecycle 9223372036854775807 base_inputs 10000000000000000000 1 params
     = Inl ValueError"
proof -
  have "(1::real) \<noteq> 0"
    by simp
  moreover have "int 9223372036854775807
           < np_arange_length 0 (round_double (10000000000000000000 + 1)) 1"
    unfolding np_arange_length_1e19 by simp
  ultimately show ?thesis
    by (rule simulate_vehicle_lifecycle_too_long)
qed





end
